theory Spec2Isabelle
  imports Main
begin

section \<open>The transfer rails of static/js/transfers.js\<close>

text \<open>
  The script keeps no model of its own: every function reads and writes the document.
  The document is therefore the state, and every function of the script is a function
  from documents to documents. Only the part of the document that the script reads or
  writes is kept:
  \<^item> the elements of class \<^verbatim>\<open>account-card\<close>, in document order (the order of
    \<^verbatim>\<open>querySelectorAll\<close> and the meaning of "first" for \<^verbatim>\<open>querySelector\<close>);
    a card reference of the script is the position of the card in that list;
  \<^item> the elements the script looks up with \<^verbatim>\<open>getElementById\<close> (rails, hidden
    fields, the recipient wrapper and inputs, the checkboxes), as a store from ids to
    elements; an id that is not in the store is an element the page does not have.
  Every element lookup is guarded (\<^verbatim>\<open>if(!rail) return\<close>, \<^verbatim>\<open>if (hid)\<close>,
  \<^verbatim>\<open>?.\<close>) and every loop is a \<^verbatim>\<open>forEach\<close> over a finite node list, so the
  functions below are total. The one statement of the script that can throw is the
  selector lookup of line 34, for a rail group name that the selector syntax refuses; the
  functions below describe the script for the other names, and \<open>selectCardE\<close> further
  down has the exception as a result of its own.

  What is left out: the tab buttons (lines 4-12) and the scroll arrows of the rails
  (lines 15-29), which touch the classes \<^verbatim>\<open>active\<close> and \<^verbatim>\<open>show\<close> of other elements
  and the scroll position only, none of which the rest of the script reads.

  What is taken for granted about the page: the script adds and removes no element, so an
  element found when the script is loaded (\<^verbatim>\<open>selfChk\<close>, the rails that get a click
  listener) is the element found later under the same id; an account card is not itself
  one of the elements looked up by id; and a rail group name is plain (defined below: it
  holds no character that would end or escape the quoted string in the selector of line
  34), as is the case for the four keys of the table. A position beyond the end of the card list is no card reference:
  the theorems about the card at a position say that the position is in range wherever
  the card is written to.
\<close>

subsection \<open>The document\<close>

text \<open>
  A card carries three data attributes, each of them possibly absent
  (\<^verbatim>\<open>dataset.x\<close> is then \<^verbatim>\<open>undefined\<close>), the three classes the script toggles, and
  the ids of the elements it lies inside (what \<^verbatim>\<open>rail.querySelectorAll\<close> and the
  selector \<^verbatim>\<open>#rail-x .account-card\<close> look at). The rail group of a card
  (\<^verbatim>\<open>data-rail-group\<close>) and the rail element it lies inside are two separate things in
  the source, and they are kept separate here.
\<close>

record card =
  railGroup :: "string option"
  accountId :: "string option"
  currency :: "string option"
  within :: "string list"
  selected :: bool
  d_none :: bool
  disabled :: bool

text \<open>
  An element found by id: its \<^verbatim>\<open>value\<close>, \<^verbatim>\<open>checked\<close> and \<^verbatim>\<open>disabled\<close>
  properties, its \<^verbatim>\<open>aria-disabled\<close> attribute, and the three classes the script
  toggles on such elements.
\<close>

record element =
  val :: string
  checked :: bool
  disabledProp :: bool
  ariaDisabled :: "string option"
  cls_d_none :: bool
  cls_opacity_75 :: bool
  cls_is_disabled :: bool

record dom =
  cards :: "card list"
  elems :: "string \<rightharpoonup> element"

text \<open>The bindings passed to \<^verbatim>\<open>selectCard\<close>; a binding that is not set is \<open>None\<close>.
  Optional chaining (\<^verbatim>\<open>options?.hiddenId\<close>) reads every binding of an undefined
  \<^verbatim>\<open>options\<close> as undefined, so the record with no binding set stands for it too.\<close>

record options =
  hiddenId :: "string option"
  hiddenCurrency :: "string option"
  onSelect :: "(nat \<Rightarrow> dom \<Rightarrow> dom) option"

subsection \<open>JavaScript values\<close>

text \<open>Truthiness of a value that is a string or undefined/null: the empty string is falsy.\<close>

definition truthy :: "string option \<Rightarrow> bool" where
  "truthy v = (case v of None \<Rightarrow> False | Some s \<Rightarrow> s \<noteq> [])"

text \<open>\<^verbatim>\<open>v || ''\<close>\<close>

definition orEmpty :: "string option \<Rightarrow> string" where
  "orEmpty v = (case v of None \<Rightarrow> [] | Some s \<Rightarrow> s)"

text \<open>\<^verbatim>\<open>String.prototype.toUpperCase\<close> on ASCII text: the letters a to z are made
  capital and every other character is left as it is. What JavaScript does to a character
  outside ASCII is not described (currency codes are ASCII).\<close>

definition upperChar :: "char \<Rightarrow> char" where
  "upperChar c =
     (case map_of (zip ''abcdefghijklmnopqrstuvwxyz'' ''ABCDEFGHIJKLMNOPQRSTUVWXYZ'') c of
        None \<Rightarrow> c
      | Some u \<Rightarrow> u)"

definition toUpperCase :: "string \<Rightarrow> string" where
  "toUpperCase s = map upperChar s"

subsection \<open>Document access\<close>

text \<open>\<^verbatim>\<open>const el = document.getElementById(i); if (el) { ... el changes ... }\<close>\<close>

definition updElem :: "string \<Rightarrow> (element \<Rightarrow> element) \<Rightarrow> dom \<Rightarrow> dom" where
  "updElem i f d =
     (case elems d i of None \<Rightarrow> d | Some e \<Rightarrow> d\<lparr>elems := (elems d)(i \<mapsto> f e)\<rparr>)"

text \<open>\<^verbatim>\<open>querySelectorAll(sel).forEach(c => ...)\<close>: the cards that match, each changed in
  place; the others are left alone.\<close>

definition forEachCard :: "(card \<Rightarrow> bool) \<Rightarrow> (card \<Rightarrow> card) \<Rightarrow> dom \<Rightarrow> dom" where
  "forEachCard sel f d = d\<lparr>cards := map (\<lambda>c. if sel c then f c else c) (cards d)\<rparr>"

text \<open>\<^verbatim>\<open>querySelector\<close>: the position of the first card that matches, if any.\<close>

fun querySelector :: "(card \<Rightarrow> bool) \<Rightarrow> card list \<Rightarrow> nat option" where
  "querySelector sel [] = None"
| "querySelector sel (c # cs) =
     (if sel c then Some 0 else map_option Suc (querySelector sel cs))"

text \<open>The selector \<^verbatim>\<open>.account-card[data-rail-group="g"]\<close>.\<close>

definition inGroup :: "string \<Rightarrow> card \<Rightarrow> bool" where
  "inGroup g c = (railGroup c = Some g)"

text \<open>\<^verbatim>\<open>rail.querySelectorAll('.account-card')\<close> and \<^verbatim>\<open>#railId .account-card\<close>.\<close>

definition inRail :: "string \<Rightarrow> card \<Rightarrow> bool" where
  "inRail railId c = (railId \<in> set (within c))"

text \<open>\<^verbatim>\<open>#railId .account-card:not(.d-none):not(.disabled)\<close>\<close>

definition selectable :: "string \<Rightarrow> card \<Rightarrow> bool" where
  "selectable railId c = (inRail railId c \<and> \<not> d_none c \<and> \<not> disabled c)"

subsection \<open>Helpers of the script\<close>

text \<open>
  \<^verbatim>\<open>selectCard(card, options)\<close>, lines 32-49. The group read from a card without the
  attribute is \<^verbatim>\<open>undefined\<close>, which the string concatenation of the selector turns
  into the text "undefined". There is no test of the card's own classes. The cards that
  the selector of line 34 matches are taken to be the cards of that group, which is so
  for a plain group name (defined below).
\<close>

definition groupOf :: "card \<Rightarrow> string" where
  "groupOf c = (case railGroup c of None \<Rightarrow> ''undefined'' | Some g \<Rightarrow> g)"

definition markSelected :: "nat \<Rightarrow> dom \<Rightarrow> dom" where
  "markSelected i d =
     (let d1 = forEachCard (inGroup (groupOf (cards d ! i))) (\<lambda>c. c\<lparr>selected := False\<rparr>) d
      in d1\<lparr>cards := (cards d1)[i := (cards d1 ! i)\<lparr>selected := True\<rparr>]\<rparr>)"

definition writeHiddenId :: "nat \<Rightarrow> options \<Rightarrow> dom \<Rightarrow> dom" where
  "writeHiddenId i opts d =
     (if truthy (hiddenId opts)
      then updElem (orEmpty (hiddenId opts))
             (\<lambda>hid. hid\<lparr>val := orEmpty (accountId (cards d ! i))\<rparr>) d
      else d)"

definition writeHiddenCurrency :: "nat \<Rightarrow> options \<Rightarrow> dom \<Rightarrow> dom" where
  "writeHiddenCurrency i opts d =
     (if truthy (hiddenCurrency opts) \<and> truthy (currency (cards d ! i))
      then updElem (orEmpty (hiddenCurrency opts))
             (\<lambda>hc. hc\<lparr>val := orEmpty (currency (cards d ! i))\<rparr>) d
      else d)"

definition selectCard :: "nat \<Rightarrow> options \<Rightarrow> dom \<Rightarrow> dom" where
  "selectCard i opts d =
     (let d1 = markSelected i d;
          d2 = writeHiddenId i opts d1;
          d3 = writeHiddenCurrency i opts d2
      in case onSelect opts of None \<Rightarrow> d3 | Some f \<Rightarrow> f i d3)"

text \<open>\<^verbatim>\<open>filterRailByCurrency(railId, allowedCurrency)\<close>, lines 51-61.\<close>

definition filterCard :: "string option \<Rightarrow> card \<Rightarrow> card" where
  "filterCard allow c =
     (let cur = toUpperCase (orEmpty (currency c));
          show = (if truthy allow then cur = orEmpty allow else True);
          c1 = c\<lparr>d_none := \<not> show\<rparr>
      in if \<not> show then c1\<lparr>selected := False\<rparr> else c1)"

definition filterRailByCurrency :: "string \<Rightarrow> string option \<Rightarrow> dom \<Rightarrow> dom" where
  "filterRailByCurrency railId allowedCurrency d =
     (case elems d railId of
        None \<Rightarrow> d
      | Some rail \<Rightarrow>
          (let allow = (if truthy allowedCurrency
                        then Some (toUpperCase (orEmpty allowedCurrency)) else None)
           in forEachCard (inRail railId) (filterCard allow) d))"

text \<open>\<^verbatim>\<open>showAllCardsInRail(railId)\<close>, lines 63-69.\<close>

definition showAllCardsInRail :: "string \<Rightarrow> dom \<Rightarrow> dom" where
  "showAllCardsInRail railId d =
     (case elems d railId of
        None \<Rightarrow> d
      | Some rail \<Rightarrow> forEachCard (inRail railId) (\<lambda>c. c\<lparr>d_none := False\<rparr>) d)"

text \<open>\<^verbatim>\<open>applyLocalToDisables()\<close>, lines 72-79. A card without the account attribute has
  \<^verbatim>\<open>dataset.accountId === undefined\<close>, which is strictly equal to no string.\<close>

definition localFromId :: "dom \<Rightarrow> string" where
  "localFromId d = orEmpty (map_option val (elems d ''local-from-id''))"

definition applyLocalToDisables :: "dom \<Rightarrow> dom" where
  "applyLocalToDisables d =
     (let fromId = localFromId d
      in forEachCard (inGroup ''local-to'')
           (\<lambda>c. if accountId c = Some fromId then c\<lparr>disabled := True\<rparr>
                else c\<lparr>disabled := False\<rparr>) d)"

text \<open>\<^verbatim>\<open>applyLocalCurrencyFilter(fromCard)\<close>, lines 82-86, and
  \<^verbatim>\<open>applyIntlToCurrencyFilter(fromCard)\<close>, lines 89-95. The argument may be null.\<close>

definition cardCurrency :: "nat option \<Rightarrow> dom \<Rightarrow> string" where
  "cardCurrency fromC d =
     toUpperCase (orEmpty (case fromC of None \<Rightarrow> None | Some i \<Rightarrow> currency (cards d ! i)))"

definition applyLocalCurrencyFilter :: "nat option \<Rightarrow> dom \<Rightarrow> dom" where
  "applyLocalCurrencyFilter fromC d =
     (let cur = cardCurrency fromC d
      in if cur = [] then showAllCardsInRail ''rail-local-to'' d
         else filterRailByCurrency ''rail-local-to'' (Some cur) d)"

definition applyIntlToCurrencyFilter :: "nat option \<Rightarrow> dom \<Rightarrow> dom" where
  "applyIntlToCurrencyFilter fromC d =
     (let cur = cardCurrency fromC d
      in if cur = [] then showAllCardsInRail ''rail-intl-to'' d
         else
           (let opposite = (if cur = ''KRW'' then Some ''BDT''
                            else if cur = ''BDT'' then Some ''KRW'' else None)
            in if truthy opposite then filterRailByCurrency ''rail-intl-to'' opposite d
               else showAllCardsInRail ''rail-intl-to'' d))"

text \<open>\<^verbatim>\<open>setRecipientDisabled(scopePrefix, disabled)\<close>, lines 98-112.\<close>

definition setRecipientDisabled :: "string \<Rightarrow> bool \<Rightarrow> dom \<Rightarrow> dom" where
  "setRecipientDisabled scopePrefix dis d =
     (let d1 = updElem (scopePrefix @ ''recipient-wrap'')
                 (\<lambda>wrap. wrap\<lparr>cls_opacity_75 := dis,
                               ariaDisabled := Some (if dis then ''true'' else ''false'')\<rparr>) d;
          d2 = updElem (scopePrefix @ ''recipient_id'')
                 (\<lambda>n. n\<lparr>disabledProp := dis, cls_is_disabled := dis\<rparr>) d1
      in updElem (scopePrefix @ ''recipient_name'')
           (\<lambda>n. n\<lparr>disabledProp := dis, cls_is_disabled := dis\<rparr>) d2)"

subsection \<open>Wiring\<close>

text \<open>The table \<^verbatim>\<open>map\<close>, lines 115-132, and its keys in the order of
  \<^verbatim>\<open>Object.keys\<close>. A grp that is no key has no bindings.\<close>

definition railMap :: "string \<Rightarrow> options" where
  "railMap grp =
     (if grp = ''local-from'' then
        \<lparr>hiddenId = Some ''local-from-id'', hiddenCurrency = Some ''local-currency'',
         onSelect = Some (\<lambda>card d. applyLocalCurrencyFilter (Some card) (applyLocalToDisables d))\<rparr>
      else if grp = ''local-to'' then
        \<lparr>hiddenId = Some ''local-to-id'', hiddenCurrency = None, onSelect = None\<rparr>
      else if grp = ''intl-from'' then
        \<lparr>hiddenId = Some ''intl-from-id'', hiddenCurrency = None,
         onSelect = Some (\<lambda>card d. applyIntlToCurrencyFilter (Some card) d)\<rparr>
      else if grp = ''intl-to'' then
        \<lparr>hiddenId = Some ''intl-to-id'', hiddenCurrency = None, onSelect = None\<rparr>
      else \<lparr>hiddenId = None, hiddenCurrency = None, onSelect = None\<rparr>)"

definition mapKeys :: "string list" where
  "mapKeys = [''local-from'', ''local-to'', ''intl-from'', ''intl-to'']"

text \<open>
  The click listener of a rail, lines 134-142. The listener exists for the keys of the
  table whose rail element the page has. \<open>target\<close> is what
  \<^verbatim>\<open>e.target.closest('.account-card')\<close> finds: a card, or nothing.
\<close>

definition railClick :: "string \<Rightarrow> nat option \<Rightarrow> dom \<Rightarrow> dom" where
  "railClick grp target d =
     (if grp \<notin> set mapKeys then d
      else case elems d (''rail-'' @ grp) of
        None \<Rightarrow> d
      | Some rail \<Rightarrow>
          (case target of
             None \<Rightarrow> d
           | Some i \<Rightarrow> if disabled (cards d ! i) then d else selectCard i (railMap grp) d))"

text \<open>The self toggles, lines 146-179.\<close>

definition onIntlSelfChange :: "dom \<Rightarrow> dom" where
  "onIntlSelfChange d =
     (case elems d ''chk-self'' of
        None \<Rightarrow> d
      | Some selfChk \<Rightarrow>
          if checked selfChk then
            (let d1 = updElem ''self-bdt-wrap'' (\<lambda>w. w\<lparr>cls_d_none := False\<rparr>) d;
                 d2 = setRecipientDisabled [] True d1;
                 d3 = filterRailByCurrency ''rail-intl-to'' (Some ''BDT'') d2
             in case querySelector (selectable ''rail-intl-to'') (cards d3) of
                  None \<Rightarrow> d3
                | Some firstBDT \<Rightarrow> selectCard firstBDT (railMap ''intl-to'') d3)
          else
            (let d1 = updElem ''self-bdt-wrap'' (\<lambda>w. w\<lparr>cls_d_none := True\<rparr>) d;
                 d2 = setRecipientDisabled [] False d1;
                 d3 = updElem ''intl-to-id'' (\<lambda>hidden. hidden\<lparr>val := []\<rparr>) d2
             in forEachCard (inRail ''rail-intl-to'') (\<lambda>c. c\<lparr>selected := False\<rparr>) d3))"

definition onLocalSelfChange :: "dom \<Rightarrow> dom" where
  "onLocalSelfChange d =
     (case elems d ''local-chk-self'' of
        None \<Rightarrow> d
      | Some localSelfChk \<Rightarrow> setRecipientDisabled ''local-'' (checked localSelfChk) d)"

text \<open>The preselection at the end of the script, lines 182-185, and the whole of what
  the script does to the document when it is loaded.\<close>

definition preselect :: "string \<Rightarrow> dom \<Rightarrow> dom" where
  "preselect grp d =
     (case querySelector (selectable (''rail-'' @ grp)) (cards d) of
        None \<Rightarrow> d
      | Some first \<Rightarrow> selectCard first (railMap grp) d)"

definition init :: "dom \<Rightarrow> dom" where
  "init d = preselect ''intl-from'' (preselect ''local-from''
              (onLocalSelfChange (onIntlSelfChange d)))"

subsection \<open>Events\<close>

text \<open>
  What can happen to the page after the script is loaded: a click inside a rail (with the
  card that \<^verbatim>\<open>closest\<close> finds, if any), and a change of one of the two self
  checkboxes, where the browser sets \<^verbatim>\<open>checked\<close> and then runs the change listener.
\<close>

datatype event =
  Click string "nat option"
| IntlSelfToggled bool
| LocalSelfToggled bool

fun handle :: "event \<Rightarrow> dom \<Rightarrow> dom" where
  "handle (Click grp target) d = railClick grp target d"
| "handle (IntlSelfToggled b) d =
     onIntlSelfChange (updElem ''chk-self'' (\<lambda>chk. chk\<lparr>checked := b\<rparr>) d)"
| "handle (LocalSelfToggled b) d =
     onLocalSelfChange (updElem ''local-chk-self'' (\<lambda>chk. chk\<lparr>checked := b\<rparr>) d)"

text \<open>A click names a card of the document.\<close>

fun validEvent :: "dom \<Rightarrow> event \<Rightarrow> bool" where
  "validEvent d (Click grp (Some i)) = (i < length (cards d))"
| "validEvent d e = True"

text \<open>The states reached once a selection in the local "from" rail has completed: the
  state right after such a selection, and every state that later events lead to.\<close>

inductive afterLocalFrom :: "dom \<Rightarrow> bool" where
  selection: "i < length (cards d) \<Longrightarrow> afterLocalFrom (selectCard i (railMap ''local-from'') d)"
| later: "afterLocalFrom d \<Longrightarrow> validEvent d e \<Longrightarrow> afterLocalFrom (handle e d)"

subsection \<open>Properties named by the specification\<close>

text \<open>Two currency codes are the same if they agree once both are upper-cased, which is
  how the script compares them.\<close>

definition equalsIgnoreCase :: "string \<Rightarrow> string \<Rightarrow> bool" where
  "equalsIgnoreCase a b = (toUpperCase a = toUpperCase b)"

definition hasCurrency :: "string \<Rightarrow> card \<Rightarrow> bool" where
  "hasCurrency code c = equalsIgnoreCase (orEmpty (currency c)) code"

text \<open>At most one selected card in each rail group.\<close>

definition oneSelectedPerRail :: "dom \<Rightarrow> bool" where
  "oneSelectedPerRail d =
     (\<forall>i \<in> set [0..<length (cards d)]. \<forall>j \<in> set [0..<length (cards d)].
        selected (cards d ! i) \<and> selected (cards d ! j) \<and> railGroup (cards d ! i) \<noteq> None
        \<and> railGroup (cards d ! i) = railGroup (cards d ! j) \<longrightarrow> i = j)"

text \<open>A card of the local "to" group is disabled exactly if its account is the one in
  the local "from" hidden field.\<close>

definition localToDisabledRule :: "dom \<Rightarrow> bool" where
  "localToDisabledRule d =
     (\<forall>c \<in> set (cards d).
        inGroup ''local-to'' c \<longrightarrow> (disabled c \<longleftrightarrow> accountId c = Some (localFromId d)))"

subsection \<open>An example page\<close>

text \<open>The page of the specification's scenario: accounts 1 (KRW), 2 (KRW) and 3 (BDT) in
  the local "to" rail; every card lies inside the rail element of its group, and every
  element the script looks up is there.\<close>

definition mkCard :: "string \<Rightarrow> string \<Rightarrow> string option \<Rightarrow> card" where
  "mkCard g a c =
     \<lparr>railGroup = Some g, accountId = Some a, currency = c, within = [''rail-'' @ g],
      selected = False, d_none = False, disabled = False\<rparr>"

definition blank :: element where
  "blank = \<lparr>val = [], checked = False, disabledProp = False, ariaDisabled = None,
            cls_d_none = False, cls_opacity_75 = False, cls_is_disabled = False\<rparr>"

definition page :: dom where
  "page =
     \<lparr>cards =
        [mkCard ''local-from'' ''1'' (Some ''KRW''), mkCard ''local-from'' ''3'' (Some ''BDT''),
         mkCard ''local-from'' ''4'' None,
         mkCard ''local-to'' ''1'' (Some ''KRW''), mkCard ''local-to'' ''2'' (Some ''KRW''),
         mkCard ''local-to'' ''3'' (Some ''BDT''),
         mkCard ''intl-from'' ''1'' (Some ''KRW''),
         mkCard ''intl-to'' ''2'' (Some ''KRW''), mkCard ''intl-to'' ''3'' (Some ''BDT'')],
      elems = map_of (map (\<lambda>i. (i, blank))
        [''rail-local-from'', ''rail-local-to'', ''rail-intl-from'', ''rail-intl-to'',
         ''local-from-id'', ''local-currency'', ''local-to-id'', ''intl-from-id'', ''intl-to-id'',
         ''recipient-wrap'', ''recipient_id'', ''recipient_name'',
         ''local-recipient-wrap'', ''local-recipient_id'', ''local-recipient_name'',
         ''chk-self'', ''self-bdt-wrap'', ''local-chk-self''])\<rparr>"

text \<open>A page with one account card, lying inside no rail, and with none of the elements
  that the script looks up by id.\<close>

definition bare :: dom where
  "bare = \<lparr>cards = [(mkCard ''local-to'' ''1'' (Some ''KRW''))\<lparr>within := [], disabled := True\<rparr>],
           elems = Map.empty\<rparr>"

text \<open>The data attributes of a card and where it lies: what no function of the script writes.\<close>

definition attrs :: "card \<Rightarrow> string option \<times> string option \<times> string option \<times> string list" where
  "attrs c = (railGroup c, accountId c, currency c, within c)"

text \<open>The example page after a click on account 1 (KRW) in the local "from" rail.\<close>

definition pageKRW :: dom where
  "pageKRW = railClick ''local-from'' (Some 0) page"

text \<open>The example page without the wrapper of the international recipient inputs.\<close>

definition pageNoWrap :: dom where
  "pageNoWrap = page\<lparr>elems := (elems page)(''recipient-wrap'' := None)\<rparr>"

text \<open>The example page after a click on account 1 in the local "to" rail.\<close>

definition pageTo1 :: dom where
  "pageTo1 = railClick ''local-to'' (Some 3) page"

text \<open>From \<open>d\<close> to \<open>d'\<close> no card has become selected, and the cards are the same cards.\<close>

definition onlyDeselects :: "dom \<Rightarrow> dom \<Rightarrow> bool" where
  "onlyDeselects d d' =
     (map attrs (cards d') = map attrs (cards d)
      \<and> (\<forall>j \<in> set [0..<length (cards d)]. selected (cards d' ! j) \<longrightarrow> selected (cards d ! j)))"

text \<open>The example page after a click on account 3 (BDT) in the local "to" rail.\<close>

definition pageTo3 :: dom where
  "pageTo3 = railClick ''local-to'' (Some 5) page"

text \<open>The example page with the international self checkbox ticked.\<close>

definition pageSelf :: dom where
  "pageSelf = updElem ''chk-self'' (\<lambda>chk. chk\<lparr>checked := True\<rparr>) page"

text \<open>The same page after the handler has run and the checkbox has been cleared again.\<close>

definition pageSelfOff :: dom where
  "pageSelfOff = updElem ''chk-self'' (\<lambda>chk. chk\<lparr>checked := False\<rparr>) (onIntlSelfChange pageSelf)"

subsection \<open>Where the model is exact\<close>

text \<open>
  Line 34 pastes the rail group of the card between double quotes into a selector. A group
  name is plain if the selector reads it back as it is written: it holds no double quote,
  no backslash, no line break (line feed, form feed, carriage return) and no null
  character. For a plain name the selector matches the cards whose
  \<^verbatim>\<open>data-rail-group\<close> is that name, which is what \<open>inGroup\<close> says. Any other name
  is outside what \<open>markSelected\<close> describes: the selector may be refused (a
  \<^verbatim>\<open>SyntaxError\<close>) or may match something else. The four keys of the table, and the
  text "undefined" of a card without the attribute, are plain.
\<close>

definition plain :: "string \<Rightarrow> bool" where
  "plain g = (\<forall>c \<in> set g. c \<notin> set [CHR 0x22, CHR 0x5C, CHR 0x0A, CHR 0x0C, CHR 0x0D, CHR 0x00])"

definition plainGroups :: "dom \<Rightarrow> bool" where
  "plainGroups d = (\<forall>c \<in> set (cards d). plain (groupOf c))"

text \<open>The upper-casing of the model is that of JavaScript on ASCII text.\<close>

definition isAscii :: "string \<Rightarrow> bool" where
  "isAscii s = (\<forall>c \<in> set s. (of_char c :: nat) < 128)"

text \<open>Every rail that a card lies inside is an element of the page.\<close>

definition consistent :: "dom \<Rightarrow> bool" where
  "consistent d = (\<forall>c \<in> set (cards d). \<forall>r \<in> set (within c). elems d r \<noteq> None)"

subsection \<open>The selector of line 34 as the browser answers it\<close>

text \<open>
  \<^verbatim>\<open>selectCard\<close> once more, with the answer of \<^verbatim>\<open>document.querySelectorAll\<close> to
  the selector of line 34 taken from outside: \<open>qsa g\<close> is \<open>None\<close> when the selector
  built from the group \<open>g\<close> is refused, and the exception then leaves \<^verbatim>\<open>selectCard\<close>
  before anything is written; otherwise it is the test for the cards that the selector
  matches. The international self toggle is the one other function that can be left by
  that exception, after it has done everything that comes before the selection.
\<close>

datatype result = Returned dom | Threw dom

definition selectCardE :: "(string \<Rightarrow> (card \<Rightarrow> bool) option) \<Rightarrow> nat \<Rightarrow> options \<Rightarrow> dom \<Rightarrow> result" where
  "selectCardE qsa i opts d =
     (case qsa (groupOf (cards d ! i)) of
        None \<Rightarrow> Threw d
      | Some matched \<Rightarrow>
          (let d0 = forEachCard matched (\<lambda>c. c\<lparr>selected := False\<rparr>) d;
               d1 = d0\<lparr>cards := (cards d0)[i := (cards d0 ! i)\<lparr>selected := True\<rparr>]\<rparr>;
               d2 = writeHiddenId i opts d1;
               d3 = writeHiddenCurrency i opts d2
           in Returned (case onSelect opts of None \<Rightarrow> d3 | Some f \<Rightarrow> f i d3)))"

definition onIntlSelfChangeE :: "(string \<Rightarrow> (card \<Rightarrow> bool) option) \<Rightarrow> dom \<Rightarrow> result" where
  "onIntlSelfChangeE qsa d =
     (case elems d ''chk-self'' of
        None \<Rightarrow> Returned d
      | Some selfChk \<Rightarrow>
          if checked selfChk then
            (let d1 = updElem ''self-bdt-wrap'' (\<lambda>w. w\<lparr>cls_d_none := False\<rparr>) d;
                 d2 = setRecipientDisabled [] True d1;
                 d3 = filterRailByCurrency ''rail-intl-to'' (Some ''BDT'') d2
             in case querySelector (selectable ''rail-intl-to'') (cards d3) of
                  None \<Rightarrow> Returned d3
                | Some firstBDT \<Rightarrow> selectCardE qsa firstBDT (railMap ''intl-to'') d3)
          else
            (let d1 = updElem ''self-bdt-wrap'' (\<lambda>w. w\<lparr>cls_d_none := True\<rparr>) d;
                 d2 = setRecipientDisabled [] False d1;
                 d3 = updElem ''intl-to-id'' (\<lambda>hidden. hidden\<lparr>val := []\<rparr>) d2
             in Returned (forEachCard (inRail ''rail-intl-to'') (\<lambda>c. c\<lparr>selected := False\<rparr>) d3)))"

text \<open>What is relied on about the browser: a plain name is matched as it is written.\<close>

definition standard :: "(string \<Rightarrow> (card \<Rightarrow> bool) option) \<Rightarrow> bool" where
  "standard qsa = (\<forall>g. plain g \<longrightarrow> qsa g = Some (inGroup g))"

text \<open>One such answer, for the examples: it refuses every name that is not plain.\<close>

definition plainOnly :: "string \<Rightarrow> (card \<Rightarrow> bool) option" where
  "plainOnly g = (if plain g then Some (inGroup g) else None)"

subsection \<open>The comparison of currency codes in the specification's words\<close>

text \<open>
  "Case-insensitive comparison", written without the upper-casing of the script: two
  codes are the same if they agree once every capital letter is made small.
\<close>

definition lowerChar :: "char \<Rightarrow> char" where
  "lowerChar c =
     (case map_of (zip ''ABCDEFGHIJKLMNOPQRSTUVWXYZ'' ''abcdefghijklmnopqrstuvwxyz'') c of
        None \<Rightarrow> c
      | Some l \<Rightarrow> l)"

definition sameIgnoringCase :: "string \<Rightarrow> string \<Rightarrow> bool" where
  "sameIgnoringCase a b = (map lowerChar a = map lowerChar b)"

subsection \<open>More example pages\<close>

text \<open>The example page as a server may send it when account 1 is the source of a transfer
  in progress: the card of account 1 in the local "to" rail already carries the disabled
  class, and the form has no \<^verbatim>\<open>local-from-id\<close> field.\<close>

definition pageNoFromId :: dom where
  "pageNoFromId =
     page\<lparr>cards := (cards page)[3 := (cards page ! 3)\<lparr>disabled := True\<rparr>],
          elems := (elems page)(''local-from-id'' := None)\<rparr>"

text \<open>The example page with the international "from" rail placed inside the international
  "to" rail, so that its cards lie inside both.\<close>

definition pageNested :: dom where
  "pageNested =
     page\<lparr>cards := map (\<lambda>c. if inGroup ''intl-from'' c
                              then c\<lparr>within := [''rail-intl-from'', ''rail-intl-to'']\<rparr> else c)
                     (cards page)\<rparr>"

section \<open>Basic facts\<close>

subsection \<open>What each function leaves alone\<close>

lemma cards_forEachCard [simp]:
  "cards (forEachCard sel f d) = map (\<lambda>c. if sel c then f c else c) (cards d)"
  by (simp add: forEachCard_def)

lemma elems_forEachCard [simp]: "elems (forEachCard sel f d) = elems d"
  by (simp add: forEachCard_def)

lemma cards_updElem [simp]: "cards (updElem i f d) = cards d"
  by (simp add: updElem_def split: option.splits)

lemma elems_updElem:
  "elems (updElem i f d) j = (if j = i then map_option f (elems d i) else elems d j)"
  by (simp add: updElem_def split: option.splits)

lemma updElem_absent: "elems d i = None \<Longrightarrow> updElem i f d = d"
  by (simp add: updElem_def)

lemma attrs_upd [simp]:
  "attrs (c\<lparr>selected := b\<rparr>) = attrs c"
  "attrs (c\<lparr>d_none := b\<rparr>) = attrs c"
  "attrs (c\<lparr>disabled := b\<rparr>) = attrs c"
  by (simp_all add: attrs_def)

lemma attrs_eqD:
  assumes "attrs c' = attrs c"
  shows "railGroup c' = railGroup c" "accountId c' = accountId c" "currency c' = currency c"
    "within c' = within c" "inGroup g c' = inGroup g c" "inRail r c' = inRail r c"
    "groupOf c' = groupOf c" "hasCurrency k c' = hasCurrency k c"
  using assms by (simp_all add: attrs_def inGroup_def inRail_def groupOf_def hasCurrency_def)

lemma map_eq_nthD: "map f xs = map f ys \<Longrightarrow> j < length ys \<Longrightarrow> f (xs ! j) = f (ys ! j)"
  by (metis length_map nth_map)

lemma map_forEachCard:
  "(\<And>c. sel c \<Longrightarrow> g (f c) = g c) \<Longrightarrow> map g (cards (forEachCard sel f d)) = map g (cards d)"
  by simp

lemma map_list_update_same:
  assumes "\<And>c. g (f c) = g c"
  shows "map g (xs[i := f (xs ! i)]) = map g xs"
proof (cases "i < length xs")
  case True
  then show ?thesis using assms by (simp add: map_update list_update_same_conv)
next
  case False
  then have "length xs \<le> i" by simp
  then have "xs[i := f (xs ! i)] = xs" by (rule list_update_beyond)
  then show ?thesis by simp
qed

lemma map_markSelected:
  assumes "\<And>c b. g (c\<lparr>selected := b\<rparr>) = g c"
  shows "map g (cards (markSelected i d)) = map g (cards d)"
proof -
  let ?d1 = "forEachCard (inGroup (groupOf (cards d ! i))) (\<lambda>c. c\<lparr>selected := False\<rparr>) d"
  have "map g (cards (markSelected i d)) = map g (cards ?d1)"
    unfolding markSelected_def Let_def
    using map_list_update_same [of g "\<lambda>c. c\<lparr>selected := True\<rparr>" "cards ?d1" i] assms by simp
  also have "\<dots> = map g (cards d)"
    by (rule map_forEachCard) (rule assms)
  finally show ?thesis .
qed

lemma length_cards_markSelected [simp]: "length (cards (markSelected i d)) = length (cards d)"
  by (simp add: markSelected_def Let_def)

lemma elems_markSelected [simp]: "elems (markSelected i d) = elems d"
  by (simp add: markSelected_def Let_def)

lemma nth_cards_markSelected:
  assumes "i < length (cards d)" "j < length (cards d)"
  shows "cards (markSelected i d) ! j =
           (if j = i then (cards d ! i)\<lparr>selected := True\<rparr>
            else if inGroup (groupOf (cards d ! i)) (cards d ! j)
                 then (cards d ! j)\<lparr>selected := False\<rparr> else cards d ! j)"
  using assms by (simp add: markSelected_def Let_def nth_list_update)

lemma cards_writeHiddenId [simp]: "cards (writeHiddenId i opts d) = cards d"
  by (simp add: writeHiddenId_def)

lemma cards_writeHiddenCurrency [simp]: "cards (writeHiddenCurrency i opts d) = cards d"
  by (simp add: writeHiddenCurrency_def)

lemma elems_writeHiddenId:
  "elems (writeHiddenId i opts d) j =
     (if truthy (hiddenId opts) \<and> j = orEmpty (hiddenId opts)
      then map_option (\<lambda>hid. hid\<lparr>val := orEmpty (accountId (cards d ! i))\<rparr>) (elems d j)
      else elems d j)"
  by (simp add: writeHiddenId_def elems_updElem)

lemma elems_writeHiddenCurrency:
  "elems (writeHiddenCurrency i opts d) j =
     (if truthy (hiddenCurrency opts) \<and> truthy (currency (cards d ! i))
         \<and> j = orEmpty (hiddenCurrency opts)
      then map_option (\<lambda>hc. hc\<lparr>val := orEmpty (currency (cards d ! i))\<rparr>) (elems d j)
      else elems d j)"
  by (simp add: writeHiddenCurrency_def elems_updElem)

lemma elems_filterRailByCurrency [simp]: "elems (filterRailByCurrency r a d) = elems d"
  by (simp add: filterRailByCurrency_def Let_def split: option.splits)

lemma elems_showAllCardsInRail [simp]: "elems (showAllCardsInRail r d) = elems d"
  by (simp add: showAllCardsInRail_def split: option.splits)

lemma elems_applyLocalToDisables [simp]: "elems (applyLocalToDisables d) = elems d"
  by (simp add: applyLocalToDisables_def Let_def)

lemma elems_applyLocalCurrencyFilter [simp]: "elems (applyLocalCurrencyFilter c d) = elems d"
  by (simp add: applyLocalCurrencyFilter_def Let_def)

lemma elems_applyIntlToCurrencyFilter [simp]: "elems (applyIntlToCurrencyFilter c d) = elems d"
  by (simp add: applyIntlToCurrencyFilter_def Let_def)

lemma cards_setRecipientDisabled [simp]: "cards (setRecipientDisabled p b d) = cards d"
  by (simp add: setRecipientDisabled_def Let_def)

lemma filterCard_frame [simp]:
  "attrs (filterCard a c) = attrs c" "disabled (filterCard a c) = disabled c"
  by (simp_all add: filterCard_def Let_def attrs_def)

lemma map_filterRailByCurrency:
  assumes "\<And>a c. g (filterCard a c) = g c"
  shows "map g (cards (filterRailByCurrency r a d)) = map g (cards d)"
  by (simp add: filterRailByCurrency_def Let_def assms split: option.splits)

lemma map_showAllCardsInRail:
  assumes "\<And>c b. g (c\<lparr>d_none := b\<rparr>) = g c"
  shows "map g (cards (showAllCardsInRail r d)) = map g (cards d)"
  by (simp add: showAllCardsInRail_def assms split: option.splits)

lemma map_applyLocalToDisables:
  assumes "\<And>c b. g (c\<lparr>disabled := b\<rparr>) = g c"
  shows "map g (cards (applyLocalToDisables d)) = map g (cards d)"
  by (simp add: applyLocalToDisables_def Let_def assms)

lemma map_applyLocalCurrencyFilter:
  assumes "\<And>a c. g (filterCard a c) = g c" "\<And>c b. g (c\<lparr>d_none := b\<rparr>) = g c"
  shows "map g (cards (applyLocalCurrencyFilter fc d)) = map g (cards d)"
  by (simp add: applyLocalCurrencyFilter_def Let_def map_filterRailByCurrency
        map_showAllCardsInRail assms)

lemma map_applyIntlToCurrencyFilter:
  assumes "\<And>a c. g (filterCard a c) = g c" "\<And>c b. g (c\<lparr>d_none := b\<rparr>) = g c"
  shows "map g (cards (applyIntlToCurrencyFilter fc d)) = map g (cards d)"
  by (simp add: applyIntlToCurrencyFilter_def Let_def map_filterRailByCurrency
        map_showAllCardsInRail assms)

lemma attrs_markSelected: "map attrs (cards (markSelected i d)) = map attrs (cards d)"
  by (rule map_markSelected) simp

lemma attrs_nth_markSelected:
  "j < length (cards d) \<Longrightarrow> attrs (cards (markSelected i d) ! j) = attrs (cards d ! j)"
  by (rule map_eq_nthD [OF attrs_markSelected])

lemma elems_selectCard_local_from:
  assumes "i < length (cards d)"
  shows "elems (selectCard i (railMap ''local-from'') d) j =
     (if j = ''local-from-id''
      then map_option (\<lambda>hid. hid\<lparr>val := orEmpty (accountId (cards d ! i))\<rparr>) (elems d j)
      else if j = ''local-currency'' \<and> truthy (currency (cards d ! i))
      then map_option (\<lambda>hc. hc\<lparr>val := orEmpty (currency (cards d ! i))\<rparr>) (elems d j)
      else elems d j)"
  using attrs_eqD(2,3) [OF attrs_nth_markSelected [OF assms, of i]]
  by (simp add: selectCard_def railMap_def Let_def elems_writeHiddenId elems_writeHiddenCurrency
        truthy_def orEmpty_def)



subsection \<open>Lookups and filters, card by card\<close>

lemma querySelector_Some:
  "querySelector sel cs = Some i \<Longrightarrow> i < length cs \<and> sel (cs ! i) \<and> (\<forall>j<i. \<not> sel (cs ! j))"
proof (induction cs arbitrary: i)
  case Nil
  then show ?case by simp
next
  case (Cons c cs)
  show ?case
  proof (cases "sel c")
    case True
    with Cons.prems show ?thesis by simp
  next
    case False
    with Cons.prems obtain k where k: "querySelector sel cs = Some k" "i = Suc k"
      by auto
    from Cons.IH [OF k(1)] False k(2) show ?thesis
      by (auto simp: nth_Cons split: nat.splits)
  qed
qed

lemma querySelector_None: "querySelector sel cs = None \<longleftrightarrow> (\<forall>c \<in> set cs. \<not> sel c)"
  by (induction cs) auto

lemma toUpperCase_codes [simp]:
  "toUpperCase ''KRW'' = ''KRW''" "toUpperCase ''BDT'' = ''BDT''"
  by code_simp+

lemma toUpperCase_empty [simp]: "toUpperCase s = [] \<longleftrightarrow> s = []"
  by (simp add: toUpperCase_def)

lemma nth_filterRailByCurrency:
  assumes "elems d railId = Some rail" "j < length (cards d)"
  shows "cards (filterRailByCurrency railId a d) ! j =
           (if inRail railId (cards d ! j)
            then filterCard (if truthy a then Some (toUpperCase (orEmpty a)) else None) (cards d ! j)
            else cards d ! j)"
  using assms by (simp add: filterRailByCurrency_def Let_def)

lemma nth_showAllCardsInRail:
  assumes "elems d railId = Some rail" "j < length (cards d)"
  shows "cards (showAllCardsInRail railId d) ! j =
           (if inRail railId (cards d ! j) then (cards d ! j)\<lparr>d_none := False\<rparr> else cards d ! j)"
  using assms by (simp add: showAllCardsInRail_def)

lemma d_none_filterCard_None [simp]: "\<not> d_none (filterCard None c)"
  by (simp add: filterCard_def Let_def truthy_def)

lemma d_none_filterCard_Some:
  "a \<noteq> [] \<Longrightarrow>
   d_none (filterCard (Some (toUpperCase a)) c) \<longleftrightarrow>
     \<not> equalsIgnoreCase (orEmpty (currency c)) a"
  by (simp add: filterCard_def Let_def truthy_def orEmpty_def equalsIgnoreCase_def)

lemma selected_filterCard:
  "selected (filterCard allow c) \<longleftrightarrow> selected c \<and> \<not> d_none (filterCard allow c)"
  by (simp add: filterCard_def Let_def)

text \<open>
  C4. In an international "to" rail that the page has, after
  \<^verbatim>\<open>applyIntlToCurrencyFilter\<close> the visible cards are exactly the BDT cards when the
  "from" card's currency is KRW, exactly the KRW cards when it is BDT, and all cards when
  there is no "from" card or its currency is neither of the two (an absent currency
  included). Currency codes are compared up to letter case.
\<close>

theorem applyIntlToCurrencyFilter_visible:
  assumes "elems d ''rail-intl-to'' = Some rail" and "j < length (cards d)"
    and "inRail ''rail-intl-to'' (cards d ! j)"
  shows "(fromC = Some i \<and> hasCurrency ''KRW'' (cards d ! i) \<longrightarrow>
            (\<not> d_none (cards (applyIntlToCurrencyFilter fromC d) ! j) \<longleftrightarrow>
               hasCurrency ''BDT'' (cards d ! j)))
       \<and> (fromC = Some i \<and> hasCurrency ''BDT'' (cards d ! i) \<longrightarrow>
            (\<not> d_none (cards (applyIntlToCurrencyFilter fromC d) ! j) \<longleftrightarrow>
               hasCurrency ''KRW'' (cards d ! j)))
       \<and> (fromC = None
            \<or> (fromC = Some i \<and> \<not> hasCurrency ''KRW'' (cards d ! i)
                \<and> \<not> hasCurrency ''BDT'' (cards d ! i)) \<longrightarrow>
            \<not> d_none (cards (applyIntlToCurrencyFilter fromC d) ! j))"
proof -
  have krw: "\<not> d_none (cards (applyIntlToCurrencyFilter fromC d) ! j) \<longleftrightarrow>
               hasCurrency ''BDT'' (cards d ! j)"
    if "fromC = Some i" "hasCurrency ''KRW'' (cards d ! i)"
    using that assms(3)
    by (simp add: applyIntlToCurrencyFilter_def cardCurrency_def Let_def hasCurrency_def
          equalsIgnoreCase_def nth_filterRailByCurrency [OF assms(1,2)] filterCard_def
          truthy_def orEmpty_def)
  have bdt: "\<not> d_none (cards (applyIntlToCurrencyFilter fromC d) ! j) \<longleftrightarrow>
               hasCurrency ''KRW'' (cards d ! j)"
    if "fromC = Some i" "hasCurrency ''BDT'' (cards d ! i)"
    using that assms(3)
    by (simp add: applyIntlToCurrencyFilter_def cardCurrency_def Let_def hasCurrency_def
          equalsIgnoreCase_def nth_filterRailByCurrency [OF assms(1,2)] filterCard_def
          truthy_def orEmpty_def)
  have none: "\<not> d_none (cards (applyIntlToCurrencyFilter fromC d) ! j)"
    if "fromC = None"
    using that assms(3)
    by (simp add: applyIntlToCurrencyFilter_def cardCurrency_def Let_def orEmpty_def
          toUpperCase_def nth_showAllCardsInRail [OF assms(1,2)])
  have other: "\<not> d_none (cards (applyIntlToCurrencyFilter fromC d) ! j)"
    if "fromC = Some i" "\<not> hasCurrency ''KRW'' (cards d ! i)" "\<not> hasCurrency ''BDT'' (cards d ! i)"
    using that assms(3)
    by (simp add: applyIntlToCurrencyFilter_def cardCurrency_def Let_def hasCurrency_def
          equalsIgnoreCase_def nth_showAllCardsInRail [OF assms(1,2)] truthy_def)
  from krw bdt none other show ?thesis by blast
qed

theorem applyIntlToCurrencyFilter_visible_witness:
  "elems page ''rail-intl-to'' = Some blank \<and> 8 < length (cards page)
   \<and> inRail ''rail-intl-to'' (cards page ! 8)
   \<and> hasCurrency ''KRW'' (cards page ! 6) \<and> hasCurrency ''BDT'' (cards page ! 8)
   \<and> \<not> d_none (cards (applyIntlToCurrencyFilter (Some 6) page) ! 8)"
proof -
  have rail: "elems page ''rail-intl-to'' = Some blank"
    by code_simp
  have len: "8 < length (cards page)"
    by code_simp
  have inr: "inRail ''rail-intl-to'' (cards page ! 8)"
    by code_simp
  have cur: "hasCurrency ''KRW'' (cards page ! 6) \<and> hasCurrency ''BDT'' (cards page ! 8)"
    by code_simp
  from applyIntlToCurrencyFilter_visible [OF rail len inr, of "Some 6" 6] rail len inr cur
  show ?thesis by blast
qed

subsection \<open>Selection through the table of bindings\<close>

lemma selectCard_local_from:
  "selectCard i (railMap ''local-from'') d =
     applyLocalCurrencyFilter (Some i) (applyLocalToDisables
       (writeHiddenCurrency i (railMap ''local-from'')
          (writeHiddenId i (railMap ''local-from'') (markSelected i d))))"
  by (simp add: selectCard_def railMap_def Let_def)

lemma selectCard_intl_from:
  "selectCard i (railMap ''intl-from'') d =
     applyIntlToCurrencyFilter (Some i)
       (writeHiddenCurrency i (railMap ''intl-from'')
          (writeHiddenId i (railMap ''intl-from'') (markSelected i d)))"
  by (simp add: selectCard_def railMap_def Let_def)

lemma selectCard_no_callback:
  "g \<noteq> ''local-from'' \<Longrightarrow> g \<noteq> ''intl-from'' \<Longrightarrow>
   selectCard i (railMap g) d =
     writeHiddenCurrency i (railMap g) (writeHiddenId i (railMap g) (markSelected i d))"
  by (simp add: selectCard_def railMap_def Let_def)

lemma map_selectCard_railMap:
  assumes "\<And>c b. f (c\<lparr>selected := b\<rparr>) = f c" and "\<And>a c. f (filterCard a c) = f c"
    and "\<And>c b. f (c\<lparr>d_none := b\<rparr>) = f c"
    and "g = ''local-from'' \<Longrightarrow> (\<And>c b. f (c\<lparr>disabled := b\<rparr>) = f c)"
  shows "map f (cards (selectCard i (railMap g) d)) = map f (cards d)"
proof -
  consider "g = ''local-from''" | "g = ''intl-from''" | "g \<noteq> ''local-from''" "g \<noteq> ''intl-from''"
    by blast
  then show ?thesis
  proof cases
    case 1
    then show ?thesis
      by (simp add: selectCard_local_from map_applyLocalCurrencyFilter map_applyLocalToDisables
            map_markSelected assms)
  next
    case 2
    then show ?thesis
      by (simp add: selectCard_intl_from map_applyIntlToCurrencyFilter map_markSelected assms(1-3))
  next
    case 3
    then show ?thesis
      by (simp add: selectCard_no_callback map_markSelected assms(1-3))
  qed
qed

lemma attrs_selectCard: "map attrs (cards (selectCard i (railMap g) d)) = map attrs (cards d)"
  by (rule map_selectCard_railMap) simp_all

lemma disabled_selectCard:
  "g \<noteq> ''local-from'' \<Longrightarrow>
   map disabled (cards (selectCard i (railMap g) d)) = map disabled (cards d)"
  by (rule map_selectCard_railMap) (simp_all add: filterCard_def Let_def)

lemma length_cards_selectCard [simp]:
  "length (cards (selectCard i (railMap g) d)) = length (cards d)"
  using attrs_selectCard [of i g d] by (rule map_eq_imp_length_eq)

lemma hiddenId_railMap:
  "g \<noteq> ''local-from'' \<Longrightarrow>
   \<not> (truthy (hiddenId (railMap g)) \<and> ''local-from-id'' = orEmpty (hiddenId (railMap g)))"
  by (simp add: railMap_def truthy_def orEmpty_def)

lemma hiddenCurrency_railMap:
  "\<not> (truthy (hiddenCurrency (railMap g)) \<and> c
       \<and> ''local-from-id'' = orEmpty (hiddenCurrency (railMap g)))"
  by (simp add: railMap_def truthy_def orEmpty_def)

lemma elems_selectCard_railMap:
  "elems (selectCard i (railMap g) d) =
   elems (writeHiddenCurrency i (railMap g) (writeHiddenId i (railMap g) (markSelected i d)))"
proof -
  consider "g = ''local-from''" | "g = ''intl-from''" | "g \<noteq> ''local-from''" "g \<noteq> ''intl-from''"
    by blast
  then show ?thesis
    by cases (simp_all add: selectCard_local_from selectCard_intl_from selectCard_no_callback)
qed

lemma localFromId_selectCard_other:
  assumes "g \<noteq> ''local-from''"
  shows "localFromId (selectCard i (railMap g) d) = localFromId d"
proof -
  have "elems (selectCard i (railMap g) d) ''local-from-id'' = elems d ''local-from-id''"
    by (simp add: elems_selectCard_railMap elems_writeHiddenCurrency elems_writeHiddenId
          hiddenId_railMap [OF assms] hiddenCurrency_railMap)
  then show ?thesis by (simp add: localFromId_def)
qed

subsection \<open>The handlers\<close>

lemma elems_setRecipientDisabled:
  "elems (setRecipientDisabled p b d) j =
     (if j = p @ ''recipient_name'' \<or> j = p @ ''recipient_id''
      then map_option (\<lambda>n. n\<lparr>disabledProp := b, cls_is_disabled := b\<rparr>) (elems d j)
      else if j = p @ ''recipient-wrap''
      then map_option (\<lambda>wrap. wrap\<lparr>cls_opacity_75 := b,
              ariaDisabled := Some (if b then ''true'' else ''false'')\<rparr>) (elems d j)
      else elems d j)"
  by (simp add: setRecipientDisabled_def Let_def elems_updElem)

lemma map_onIntlSelfChange:
  assumes "\<And>c b. f (c\<lparr>selected := b\<rparr>) = f c" and "\<And>a c. f (filterCard a c) = f c"
    and "\<And>c b. f (c\<lparr>d_none := b\<rparr>) = f c"
  shows "map f (cards (onIntlSelfChange d)) = map f (cards d)"
proof (cases "elems d ''chk-self''")
  case None
  then show ?thesis by (simp add: onIntlSelfChange_def)
next
  case (Some chk)
  show ?thesis
  proof (cases "checked chk")
    case True
    let ?d3 = "filterRailByCurrency ''rail-intl-to'' (Some ''BDT'')
                 (setRecipientDisabled [] True
                    (updElem ''self-bdt-wrap'' (\<lambda>w. w\<lparr>cls_d_none := False\<rparr>) d))"
    have d3: "map f (cards ?d3) = map f (cards d)"
      by (simp add: map_filterRailByCurrency assms)
    have "map f (cards (selectCard k (railMap ''intl-to'') ?d3)) = map f (cards d)" for k
      using map_selectCard_railMap [of f "''intl-to''" k ?d3] assms d3 by simp
    with d3 Some True show ?thesis
      by (simp add: onIntlSelfChange_def Let_def split: option.splits)
  next
    case False
    with Some show ?thesis
      by (simp add: onIntlSelfChange_def Let_def assms)
  qed
qed

lemma cards_onLocalSelfChange [simp]: "cards (onLocalSelfChange d) = cards d"
  by (simp add: onLocalSelfChange_def split: option.splits)

lemma map_railClick:
  assumes "\<And>c b. f (c\<lparr>selected := b\<rparr>) = f c" and "\<And>a c. f (filterCard a c) = f c"
    and "\<And>c b. f (c\<lparr>d_none := b\<rparr>) = f c"
    and "g = ''local-from'' \<Longrightarrow> (\<And>c b. f (c\<lparr>disabled := b\<rparr>) = f c)"
  shows "map f (cards (railClick g t d)) = map f (cards d)"
  using map_selectCard_railMap [of f g _ d] assms
  by (simp add: railClick_def split: option.splits)

lemma map_handle:
  assumes "\<And>c b. f (c\<lparr>selected := b\<rparr>) = f c" and "\<And>a c. f (filterCard a c) = f c"
    and "\<And>c b. f (c\<lparr>d_none := b\<rparr>) = f c" and "\<And>c b. f (c\<lparr>disabled := b\<rparr>) = f c"
  shows "map f (cards (handle e d)) = map f (cards d)"
proof (cases e)
  case (Click g t)
  then show ?thesis using map_railClick [of f g t d] assms by simp
next
  case (IntlSelfToggled b)
  then show ?thesis
    using map_onIntlSelfChange [of f "updElem ''chk-self'' (\<lambda>chk. chk\<lparr>checked := b\<rparr>) d"] assms
    by simp
next
  case (LocalSelfToggled b)
  then show ?thesis by simp
qed

lemma attrs_handle: "map attrs (cards (handle e d)) = map attrs (cards d)"
  by (rule map_handle) simp_all

subsection \<open>Upper-casing twice\<close>

lemma upperChar_fixed:
  "\<forall>u \<in> set ''ABCDEFGHIJKLMNOPQRSTUVWXYZ''. upperChar u = u"
  by code_simp

lemma upperChar_idem [simp]: "upperChar (upperChar c) = upperChar c"
proof (cases "map_of (zip ''abcdefghijklmnopqrstuvwxyz'' ''ABCDEFGHIJKLMNOPQRSTUVWXYZ'') c")
  case None
  then show ?thesis by (simp add: upperChar_def)
next
  case (Some u)
  then have "u \<in> set ''ABCDEFGHIJKLMNOPQRSTUVWXYZ''"
    by (meson map_of_SomeD set_zip_rightD)
  with upperChar_fixed have "upperChar u = u" by blast
  moreover from Some have "upperChar c = u" by (simp add: upperChar_def)
  ultimately show ?thesis by simp
qed

lemma toUpperCase_idem [simp]: "toUpperCase (toUpperCase s) = toUpperCase s"
  by (simp add: toUpperCase_def)

subsection \<open>The disabled flags of the local "to" group\<close>

lemma nth_applyLocalToDisables:
  "j < length (cards d) \<Longrightarrow>
   cards (applyLocalToDisables d) ! j =
     (if inGroup ''local-to'' (cards d ! j)
      then (cards d ! j)\<lparr>disabled := (accountId (cards d ! j) = Some (localFromId d))\<rparr>
      else cards d ! j)"
  by (simp add: applyLocalToDisables_def Let_def)

lemma localFromId_cong: "elems d' ''local-from-id'' = elems d ''local-from-id'' \<Longrightarrow>
  localFromId d' = localFromId d"
  by (simp add: localFromId_def)

lemma localToDisabledRule_nth:
  "localToDisabledRule d \<longleftrightarrow>
     (\<forall>j<length (cards d). inGroup ''local-to'' (cards d ! j) \<longrightarrow>
        (disabled (cards d ! j) \<longleftrightarrow> accountId (cards d ! j) = Some (localFromId d)))"
  unfolding localToDisabledRule_def by (metis in_set_conv_nth)

lemma localToDisabledRule_applyLocalToDisables: "localToDisabledRule (applyLocalToDisables d)"
  unfolding localToDisabledRule_nth
proof (intro allI impI)
  fix j
  assume j: "j < length (cards (applyLocalToDisables d))"
    and g: "inGroup ''local-to'' (cards (applyLocalToDisables d) ! j)"
  have fid: "localFromId (applyLocalToDisables d) = localFromId d"
    by (rule localFromId_cong) simp
  from j have j': "j < length (cards d)"
    by (simp add: applyLocalToDisables_def Let_def)
  from g show "disabled (cards (applyLocalToDisables d) ! j) \<longleftrightarrow>
      accountId (cards (applyLocalToDisables d) ! j) = Some (localFromId (applyLocalToDisables d))"
    unfolding fid nth_applyLocalToDisables [OF j']
    by (simp add: inGroup_def split: if_splits)
qed

lemma localToDisabledRule_preserved:
  assumes "localToDisabledRule d" and "localFromId d' = localFromId d"
    and a: "map attrs (cards d') = map attrs (cards d)"
    and b: "map disabled (cards d') = map disabled (cards d)"
  shows "localToDisabledRule d'"
proof -
  have len: "length (cards d') = length (cards d)"
    using a by (rule map_eq_imp_length_eq)
  show ?thesis
    unfolding localToDisabledRule_nth
  proof (intro allI impI)
    fix j
    assume j: "j < length (cards d')" and g: "inGroup ''local-to'' (cards d' ! j)"
    from j len have j': "j < length (cards d)" by simp
    note at = map_eq_nthD [OF a j']
    from g attrs_eqD(5) [OF at] have "inGroup ''local-to'' (cards d ! j)" by simp
    with assms(1) j' have "disabled (cards d ! j) \<longleftrightarrow> accountId (cards d ! j) = Some (localFromId d)"
      by (simp add: localToDisabledRule_nth)
    with map_eq_nthD [OF b j'] attrs_eqD(2) [OF at] assms(2)
    show "disabled (cards d' ! j) \<longleftrightarrow> accountId (cards d' ! j) = Some (localFromId d')"
      by simp
  qed
qed

lemma disabled_applyLocalCurrencyFilter:
  "map disabled (cards (applyLocalCurrencyFilter fc d)) = map disabled (cards d)"
  by (rule map_applyLocalCurrencyFilter) (simp_all add: filterCard_def Let_def)

lemma attrs_applyLocalCurrencyFilter:
  "map attrs (cards (applyLocalCurrencyFilter fc d)) = map attrs (cards d)"
  by (rule map_applyLocalCurrencyFilter) simp_all

lemma localToDisabledRule_selectCard_local_from:
  "localToDisabledRule (selectCard i (railMap ''local-from'') d)"
  unfolding selectCard_local_from
proof (rule localToDisabledRule_preserved [OF localToDisabledRule_applyLocalToDisables])
  show "localFromId (applyLocalCurrencyFilter (Some i) (applyLocalToDisables
          (writeHiddenCurrency i (railMap ''local-from'')
             (writeHiddenId i (railMap ''local-from'') (markSelected i d))))) =
        localFromId (applyLocalToDisables
          (writeHiddenCurrency i (railMap ''local-from'')
             (writeHiddenId i (railMap ''local-from'') (markSelected i d))))"
    by (rule localFromId_cong) simp
qed (simp_all add: disabled_applyLocalCurrencyFilter attrs_applyLocalCurrencyFilter)

lemma elems_selectCard_intl_to:
  "elems (selectCard k (railMap ''intl-to'') d) j =
     (if j = ''intl-to-id''
      then map_option (\<lambda>hid. hid\<lparr>val := orEmpty (accountId (cards (markSelected k d) ! k))\<rparr>)
             (elems d j)
      else elems d j)"
  unfolding elems_selectCard_railMap
  by (simp add: elems_writeHiddenCurrency elems_writeHiddenId railMap_def truthy_def orEmpty_def)

lemma elems_onIntlSelfChange_other:
  assumes "j \<noteq> ''self-bdt-wrap''" "j \<noteq> ''recipient-wrap''" "j \<noteq> ''recipient_id''"
    "j \<noteq> ''recipient_name''" "j \<noteq> ''intl-to-id''"
  shows "elems (onIntlSelfChange d) j = elems d j"
  using assms
  by (simp add: onIntlSelfChange_def Let_def elems_selectCard_intl_to elems_updElem
        elems_setRecipientDisabled split: option.splits)

lemma elems_onLocalSelfChange_other:
  assumes "j \<noteq> ''local-recipient-wrap''" "j \<noteq> ''local-recipient_id''"
    "j \<noteq> ''local-recipient_name''"
  shows "elems (onLocalSelfChange d) j = elems d j"
  using assms
  by (simp add: onLocalSelfChange_def elems_setRecipientDisabled split: option.splits)

lemma localToDisabledRule_railClick:
  assumes "localToDisabledRule d"
  shows "localToDisabledRule (railClick g t d)"
proof (cases "railClick g t d = d")
  case True
  with assms show ?thesis by simp
next
  case False
  then obtain i where eq: "railClick g t d = selectCard i (railMap g) d"
    by (auto simp: railClick_def split: option.splits if_splits)
  show ?thesis
  proof (cases "g = ''local-from''")
    case True
    with eq show ?thesis by (simp add: localToDisabledRule_selectCard_local_from)
  next
    case False
    show ?thesis
      unfolding eq
      by (rule localToDisabledRule_preserved [OF assms])
         (simp_all add: localFromId_selectCard_other False attrs_selectCard disabled_selectCard)
  qed
qed

lemma localToDisabledRule_handle:
  assumes "localToDisabledRule d"
  shows "localToDisabledRule (handle e d)"
proof (cases e)
  case (Click g t)
  with assms show ?thesis by (simp add: localToDisabledRule_railClick)
next
  case (IntlSelfToggled b)
  have "map disabled (cards (handle e d)) = map disabled (cards d)"
    unfolding IntlSelfToggled handle.simps
    using map_onIntlSelfChange [of disabled "updElem ''chk-self'' (\<lambda>chk. chk\<lparr>checked := b\<rparr>) d"]
    by (simp add: filterCard_def Let_def)
  moreover have "localFromId (handle e d) = localFromId d"
    unfolding IntlSelfToggled handle.simps
    by (rule localFromId_cong) (simp add: elems_onIntlSelfChange_other elems_updElem)
  ultimately show ?thesis
    using localToDisabledRule_preserved [OF assms _ attrs_handle] by blast
next
  case (LocalSelfToggled b)
  have "map disabled (cards (handle e d)) = map disabled (cards d)"
    unfolding LocalSelfToggled handle.simps by simp
  moreover have "localFromId (handle e d) = localFromId d"
    unfolding LocalSelfToggled handle.simps
    by (rule localFromId_cong) (simp add: elems_onLocalSelfChange_other elems_updElem)
  ultimately show ?thesis
    using localToDisabledRule_preserved [OF assms _ attrs_handle] by blast
qed

lemma afterLocalFrom_rule: "afterLocalFrom d \<Longrightarrow> localToDisabledRule d"
  by (induction rule: afterLocalFrom.induct)
     (simp_all add: localToDisabledRule_selectCard_local_from localToDisabledRule_handle)

text \<open>
  C5. In every state reached once a selection in the local "from" rail has completed, a
  card of the local "to" group is disabled exactly if its account id is the value of the
  \<^verbatim>\<open>local-from-id\<close> field (the empty string if the page has no such field); and neither
  \<^verbatim>\<open>filterRailByCurrency\<close> nor \<^verbatim>\<open>showAllCardsInRail\<close> changes the disabled flag of any
  card.
\<close>

theorem local_to_disabled_rule:
  "(afterLocalFrom d \<longrightarrow> localToDisabledRule d)
   \<and> map disabled (cards (filterRailByCurrency r a d)) = map disabled (cards d)
   \<and> map disabled (cards (showAllCardsInRail r d)) = map disabled (cards d)"
proof -
  have "map disabled (cards (filterRailByCurrency r a d)) = map disabled (cards d)"
    by (rule map_filterRailByCurrency) (simp add: filterCard_def Let_def)
  moreover have "map disabled (cards (showAllCardsInRail r d)) = map disabled (cards d)"
    by (rule map_showAllCardsInRail) simp
  ultimately show ?thesis using afterLocalFrom_rule by blast
qed

lemma pageKRW_selectCard: "pageKRW = selectCard 0 (railMap ''local-from'') page"
proof -
  have "elems page ''rail-local-from'' = Some blank" "\<not> disabled (cards page ! 0)"
    by code_simp+
  then show ?thesis
    by (simp add: pageKRW_def railClick_def mapKeys_def)
qed

theorem local_to_disabled_rule_witness:
  "afterLocalFrom (handle (IntlSelfToggled True) pageKRW)
   \<and> localToDisabledRule (handle (IntlSelfToggled True) pageKRW)
   \<and> localFromId (handle (IntlSelfToggled True) pageKRW) = ''1''
   \<and> accountId (cards (handle (IntlSelfToggled True) pageKRW) ! 3) = Some ''1''
   \<and> disabled (cards (handle (IntlSelfToggled True) pageKRW) ! 3)
   \<and> \<not> disabled (cards (handle (IntlSelfToggled True) pageKRW) ! 4)"
proof -
  have "0 < length (cards page)"
    by code_simp
  then have "afterLocalFrom pageKRW"
    unfolding pageKRW_selectCard by (rule afterLocalFrom.selection)
  then have after: "afterLocalFrom (handle (IntlSelfToggled True) pageKRW)"
    by (rule afterLocalFrom.later) simp
  have facts: "localFromId (handle (IntlSelfToggled True) pageKRW) = ''1''
    \<and> accountId (cards (handle (IntlSelfToggled True) pageKRW) ! 3) = Some ''1''
    \<and> disabled (cards (handle (IntlSelfToggled True) pageKRW) ! 3)
    \<and> \<not> disabled (cards (handle (IntlSelfToggled True) pageKRW) ! 4)"
    by code_simp
  from local_to_disabled_rule [of "handle (IntlSelfToggled True) pageKRW"] after facts
  show ?thesis by blast
qed

subsection \<open>Absent elements\<close>

lemma setRecipientDisabled_absent:
  assumes "elems d (p @ ''recipient-wrap'') = None" "elems d (p @ ''recipient_id'') = None"
    "elems d (p @ ''recipient_name'') = None"
  shows "setRecipientDisabled p b d = d"
  using assms by (simp add: setRecipientDisabled_def Let_def updElem_absent)

lemma applyLocalToDisables_absent:
  assumes "elems d ''local-from-id'' = None"
  shows "applyLocalToDisables d =
           forEachCard (inGroup ''local-to'') (\<lambda>c. c\<lparr>disabled := (accountId c = Some [])\<rparr>) d"
proof -
  have "localFromId d = []"
    using assms by (simp add: localFromId_def orEmpty_def)
  moreover have "(\<lambda>c. if accountId c = Some [] then c\<lparr>disabled := True\<rparr> else c\<lparr>disabled := False\<rparr>)
      = (\<lambda>c. c\<lparr>disabled := (accountId c = Some [])\<rparr>)"
    by (rule ext) simp
  ultimately show ?thesis
    by (simp add: applyLocalToDisables_def Let_def)
qed

lemma selectCard_absent:
  assumes "\<And>x. hiddenId (railMap g) = Some x \<or> hiddenCurrency (railMap g) = Some x \<Longrightarrow>
             elems d x = None"
  shows "elems (selectCard i (railMap g) d) = elems d"
proof (rule ext)
  fix j
  have id: "elems d j = None"
    if "truthy (hiddenId (railMap g))" "j = orEmpty (hiddenId (railMap g))"
    using that assms [of j] by (auto simp: truthy_def orEmpty_def split: option.splits)
  have cur: "elems d j = None"
    if "truthy (hiddenCurrency (railMap g))" "j = orEmpty (hiddenCurrency (railMap g))"
    using that assms [of j] by (auto simp: truthy_def orEmpty_def split: option.splits)
  from id cur show "elems (selectCard i (railMap g) d) j = elems d j"
    unfolding elems_selectCard_railMap
    by (auto simp: elems_writeHiddenCurrency elems_writeHiddenId)
qed

subsection \<open>A local "from" selection, seen from a card of the local "to" group\<close>

lemma applyLocalCurrencyFilter_same_currency:
  assumes "j < length (cards d)" and "currency (cards d ! j) = currency (cards d ! i)"
  shows "selected (cards (applyLocalCurrencyFilter (Some i) d) ! j) = selected (cards d ! j)"
proof (cases "elems d ''rail-local-to''")
  case None
  then show ?thesis
    by (simp add: applyLocalCurrencyFilter_def Let_def filterRailByCurrency_def
          showAllCardsInRail_def)
next
  case (Some rail)
  show ?thesis
    using assms(2)
    by (simp add: applyLocalCurrencyFilter_def Let_def cardCurrency_def
          nth_filterRailByCurrency [OF Some assms(1)] nth_showAllCardsInRail [OF Some assms(1)]
          filterCard_def truthy_def orEmpty_def)
qed




subsection \<open>At most one selected card in a rail group\<close>

lemma oneSelectedPerRail_nth:
  "oneSelectedPerRail d \<longleftrightarrow>
     (\<forall>i<length (cards d). \<forall>j<length (cards d).
        selected (cards d ! i) \<and> selected (cards d ! j) \<and> railGroup (cards d ! i) \<noteq> None
        \<and> railGroup (cards d ! i) = railGroup (cards d ! j) \<longrightarrow> i = j)"
  unfolding oneSelectedPerRail_def by (simp add: Ball_def)

lemma oneSelectedPerRail_cards:
  "cards d' = cards d \<Longrightarrow> oneSelectedPerRail d' = oneSelectedPerRail d"
  by (simp add: oneSelectedPerRail_def)

lemma onlyDeselects_refl: "cards d' = cards d \<Longrightarrow> onlyDeselects d d'"
  by (simp add: onlyDeselects_def)

lemma onlyDeselects_trans:
  assumes "onlyDeselects d d'" "onlyDeselects d' d''"
  shows "onlyDeselects d d''"
proof -
  have "length (cards d') = length (cards d)"
    using assms(1) unfolding onlyDeselects_def by (metis map_eq_imp_length_eq)
  with assms show ?thesis
    by (simp add: onlyDeselects_def)
qed

lemma onlyDeselects_forEachCard:
  assumes "\<And>c. sel c \<Longrightarrow> attrs (f c) = attrs c" "\<And>c. sel c \<Longrightarrow> selected (f c) \<Longrightarrow> selected c"
  shows "onlyDeselects d (forEachCard sel f d)"
  using assms by (simp add: onlyDeselects_def)

lemma onlyDeselects_filterRailByCurrency: "onlyDeselects d (filterRailByCurrency r a d)"
proof (cases "elems d r")
  case None
  then show ?thesis by (simp add: filterRailByCurrency_def onlyDeselects_refl)
next
  case (Some rail)
  have "onlyDeselects d (forEachCard (inRail r) (filterCard al) d)" for al
    by (rule onlyDeselects_forEachCard) (simp_all add: selected_filterCard)
  with Some show ?thesis
    by (simp add: filterRailByCurrency_def Let_def)
qed

lemma onlyDeselects_showAllCardsInRail: "onlyDeselects d (showAllCardsInRail r d)"
proof (cases "elems d r")
  case None
  then show ?thesis by (simp add: showAllCardsInRail_def onlyDeselects_refl)
next
  case (Some rail)
  have "onlyDeselects d (forEachCard (inRail r) (\<lambda>c. c\<lparr>d_none := False\<rparr>) d)"
    by (rule onlyDeselects_forEachCard) simp_all
  with Some show ?thesis
    by (simp add: showAllCardsInRail_def)
qed

lemma onlyDeselects_applyLocalToDisables: "onlyDeselects d (applyLocalToDisables d)"
  unfolding applyLocalToDisables_def Let_def
  by (rule onlyDeselects_forEachCard) (simp_all split: if_splits)

lemma onlyDeselects_applyLocalCurrencyFilter: "onlyDeselects d (applyLocalCurrencyFilter fc d)"
  by (simp add: applyLocalCurrencyFilter_def Let_def onlyDeselects_filterRailByCurrency
        onlyDeselects_showAllCardsInRail)

lemma onlyDeselects_applyIntlToCurrencyFilter: "onlyDeselects d (applyIntlToCurrencyFilter fc d)"
  by (simp add: applyIntlToCurrencyFilter_def Let_def onlyDeselects_filterRailByCurrency
        onlyDeselects_showAllCardsInRail)

lemma oneSelectedPerRail_onlyDeselects:
  assumes inv: "oneSelectedPerRail d" and od: "onlyDeselects d d'"
  shows "oneSelectedPerRail d'"
proof -
  from od have a: "map attrs (cards d') = map attrs (cards d)"
    and s: "\<And>j. j < length (cards d) \<Longrightarrow> selected (cards d' ! j) \<Longrightarrow> selected (cards d ! j)"
    by (simp_all add: onlyDeselects_def)
  have len: "length (cards d') = length (cards d)"
    using a by (rule map_eq_imp_length_eq)
  show ?thesis
    unfolding oneSelectedPerRail_nth
  proof (intro allI impI)
    fix i j
    assume i: "i < length (cards d')" and j: "j < length (cards d')"
      and h: "selected (cards d' ! i) \<and> selected (cards d' ! j) \<and> railGroup (cards d' ! i) \<noteq> None
              \<and> railGroup (cards d' ! i) = railGroup (cards d' ! j)"
    from i j len have i': "i < length (cards d)" and j': "j < length (cards d)" by simp_all
    have rgi: "railGroup (cards d' ! i) = railGroup (cards d ! i)"
      by (rule attrs_eqD(1) [OF map_eq_nthD [OF a i']])
    have rgj: "railGroup (cards d' ! j) = railGroup (cards d ! j)"
      by (rule attrs_eqD(1) [OF map_eq_nthD [OF a j']])
    from h have "railGroup (cards d ! i) \<noteq> None" "railGroup (cards d ! i) = railGroup (cards d ! j)"
      unfolding rgi rgj by blast+
    moreover from h s [OF i'] s [OF j'] have "selected (cards d ! i)" "selected (cards d ! j)"
      by simp_all
    ultimately show "i = j"
      using inv i' j' unfolding oneSelectedPerRail_nth by blast
  qed
qed

lemma groupOf_Some: "railGroup c = Some g \<Longrightarrow> groupOf c = g"
  by (simp add: groupOf_def)

lemma oneSelectedPerRail_markSelected:
  assumes inv: "oneSelectedPerRail d" and i: "i < length (cards d)"
  shows "oneSelectedPerRail (markSelected i d)"
  unfolding oneSelectedPerRail_nth
proof (intro allI impI)
  fix j k
  assume j: "j < length (cards (markSelected i d))" and k: "k < length (cards (markSelected i d))"
    and h: "selected (cards (markSelected i d) ! j) \<and> selected (cards (markSelected i d) ! k)
            \<and> railGroup (cards (markSelected i d) ! j) \<noteq> None
            \<and> railGroup (cards (markSelected i d) ! j) = railGroup (cards (markSelected i d) ! k)"
  from j k have j': "j < length (cards d)" and k': "k < length (cards d)" by simp_all
  note aj = attrs_eqD(1) [OF attrs_nth_markSelected [OF j', of i]]
  note ak = attrs_eqD(1) [OF attrs_nth_markSelected [OF k', of i]]
  from h have rg: "railGroup (cards d ! j) \<noteq> None"
      "railGroup (cards d ! j) = railGroup (cards d ! k)"
    unfolding aj ak by blast+
  from rg(1) obtain g where gj: "railGroup (cards d ! j) = Some g"
    by blast
  with rg(2) have g: "railGroup (cards d ! j) = Some g" "railGroup (cards d ! k) = Some g"
    by simp_all
  have other: "selected (cards d ! m) \<and> \<not> inGroup (groupOf (cards d ! i)) (cards d ! m)"
    if "m < length (cards d)" "m \<noteq> i" "selected (cards (markSelected i d) ! m)" for m
    using that by (simp add: nth_cards_markSelected [OF i that(1)] split: if_splits)
  show "j = k"
  proof (cases "j = i \<or> k = i")
    case True
    show ?thesis
    proof (rule ccontr)
      assume ne: "j \<noteq> k"
      from True ne g have gi: "railGroup (cards d ! i) = Some g" by auto
      from True ne obtain m where m: "m < length (cards d)" "m \<noteq> i"
        "selected (cards (markSelected i d) ! m)" "railGroup (cards d ! m) = Some g"
        using j' k' h g by metis
      from other [OF m(1-3)] groupOf_Some [OF gi] m(4) show False
        by (simp add: inGroup_def)
    qed
  next
    case False
    with other [OF j'] other [OF k'] h have "selected (cards d ! j)" "selected (cards d ! k)"
      by simp_all
    with inv j' k' g show ?thesis
      unfolding oneSelectedPerRail_nth by (metis option.distinct(1))
  qed
qed

lemma onlyDeselects_callback:
  "onlyDeselects d (case onSelect (railMap g) of None \<Rightarrow> d | Some f \<Rightarrow> f i d)"
proof -
  have "onlyDeselects d (applyLocalCurrencyFilter (Some i) (applyLocalToDisables d))"
    by (rule onlyDeselects_trans [OF onlyDeselects_applyLocalToDisables
          onlyDeselects_applyLocalCurrencyFilter])
  then show ?thesis
    by (simp add: railMap_def onlyDeselects_refl onlyDeselects_applyIntlToCurrencyFilter)
qed

lemma selectCard_callback:
  "selectCard i opts d =
     (case onSelect opts of
        None \<Rightarrow> writeHiddenCurrency i opts (writeHiddenId i opts (markSelected i d))
      | Some f \<Rightarrow> f i (writeHiddenCurrency i opts (writeHiddenId i opts (markSelected i d))))"
  by (simp add: selectCard_def Let_def)

lemma oneSelectedPerRail_selectCard:
  assumes "oneSelectedPerRail d" and "i < length (cards d)"
  shows "oneSelectedPerRail (selectCard i (railMap g) d)"
proof -
  let ?d3 = "writeHiddenCurrency i (railMap g) (writeHiddenId i (railMap g) (markSelected i d))"
  have "oneSelectedPerRail ?d3"
    using oneSelectedPerRail_markSelected [OF assms]
    by (simp add: oneSelectedPerRail_cards [of ?d3 "markSelected i d"])
  from oneSelectedPerRail_onlyDeselects [OF this onlyDeselects_callback [where d = ?d3 and g = g and i = i]]
  show ?thesis
    by (simp add: selectCard_callback)
qed

lemma oneSelectedPerRail_railClick:
  assumes "oneSelectedPerRail d" and "validEvent d (Click g t)"
  shows "oneSelectedPerRail (railClick g t d)"
proof (cases "railClick g t d = d")
  case True
  with assms show ?thesis by simp
next
  case False
  then obtain i where "t = Some i" "railClick g t d = selectCard i (railMap g) d"
    by (auto simp: railClick_def split: option.splits if_splits)
  with assms show ?thesis
    by (simp add: oneSelectedPerRail_selectCard)
qed

lemma oneSelectedPerRail_onIntlSelfChange:
  assumes "oneSelectedPerRail d"
  shows "oneSelectedPerRail (onIntlSelfChange d)"
proof (cases "elems d ''chk-self''")
  case None
  with assms show ?thesis by (simp add: onIntlSelfChange_def)
next
  case (Some chk)
  show ?thesis
  proof (cases "checked chk")
    case True
    let ?d2 = "setRecipientDisabled [] True
                 (updElem ''self-bdt-wrap'' (\<lambda>w. w\<lparr>cls_d_none := False\<rparr>) d)"
    let ?d3 = "filterRailByCurrency ''rail-intl-to'' (Some ''BDT'') ?d2"
    have "oneSelectedPerRail ?d2"
      using assms by (simp add: oneSelectedPerRail_cards [of ?d2 d])
    from oneSelectedPerRail_onlyDeselects [OF this onlyDeselects_filterRailByCurrency]
    have d3: "oneSelectedPerRail ?d3" .
    have "oneSelectedPerRail (selectCard k (railMap ''intl-to'') ?d3)"
      if "querySelector (selectable ''rail-intl-to'') (cards ?d3) = Some k" for k
      using querySelector_Some [OF that] d3 by (simp add: oneSelectedPerRail_selectCard)
    with d3 Some True show ?thesis
      by (simp add: onIntlSelfChange_def Let_def split: option.splits)
  next
    case False
    let ?d3 = "updElem ''intl-to-id'' (\<lambda>hidden. hidden\<lparr>val := []\<rparr>)
                 (setRecipientDisabled [] False
                    (updElem ''self-bdt-wrap'' (\<lambda>w. w\<lparr>cls_d_none := True\<rparr>) d))"
    have "oneSelectedPerRail ?d3"
      using assms by (simp add: oneSelectedPerRail_cards [of ?d3 d])
    moreover have "onlyDeselects ?d3
        (forEachCard (inRail ''rail-intl-to'') (\<lambda>c. c\<lparr>selected := False\<rparr>) ?d3)"
      by (rule onlyDeselects_forEachCard) simp_all
    ultimately have "oneSelectedPerRail
        (forEachCard (inRail ''rail-intl-to'') (\<lambda>c. c\<lparr>selected := False\<rparr>) ?d3)"
      by (rule oneSelectedPerRail_onlyDeselects)
    with Some False show ?thesis
      by (simp add: onIntlSelfChange_def Let_def)
  qed
qed

lemma oneSelectedPerRail_onLocalSelfChange:
  "oneSelectedPerRail d \<Longrightarrow> oneSelectedPerRail (onLocalSelfChange d)"
  by (simp add: oneSelectedPerRail_cards [of "onLocalSelfChange d" d])

lemma oneSelectedPerRail_handle:
  assumes "oneSelectedPerRail d" and "validEvent d e"
  shows "oneSelectedPerRail (handle e d)"
proof (cases e)
  case (Click g t)
  with assms show ?thesis by (simp add: oneSelectedPerRail_railClick)
next
  case (IntlSelfToggled b)
  have "oneSelectedPerRail (updElem ''chk-self'' (\<lambda>chk. chk\<lparr>checked := b\<rparr>) d)"
    using assms(1)
    by (simp add: oneSelectedPerRail_cards [of "updElem ''chk-self'' (\<lambda>chk. chk\<lparr>checked := b\<rparr>) d" d])
  with IntlSelfToggled show ?thesis
    by (simp add: oneSelectedPerRail_onIntlSelfChange)
next
  case (LocalSelfToggled b)
  with assms(1) show ?thesis
    by (simp add: oneSelectedPerRail_cards
          [of "onLocalSelfChange (updElem ''local-chk-self'' (\<lambda>chk. chk\<lparr>checked := b\<rparr>) d)" d])
qed

lemma oneSelectedPerRail_preselect:
  assumes "oneSelectedPerRail d"
  shows "oneSelectedPerRail (preselect g d)"
proof (cases "querySelector (selectable (''rail-'' @ g)) (cards d)")
  case None
  with assms show ?thesis by (simp add: preselect_def)
next
  case (Some k)
  with querySelector_Some [OF Some] assms show ?thesis
    by (simp add: preselect_def oneSelectedPerRail_selectCard)
qed

lemma oneSelectedPerRail_init: "oneSelectedPerRail d \<Longrightarrow> oneSelectedPerRail (init d)"
  by (simp add: init_def oneSelectedPerRail_preselect oneSelectedPerRail_onLocalSelfChange
        oneSelectedPerRail_onIntlSelfChange)

subsection \<open>What a callback does to the selection of one card\<close>

lemma filterRailByCurrency_outside:
  assumes "j < length (cards d)" "\<not> inRail r (cards d ! j)"
  shows "cards (filterRailByCurrency r a d) ! j = cards d ! j"
proof (cases "elems d r")
  case None
  then show ?thesis by (simp add: filterRailByCurrency_def)
next
  case (Some rail)
  from assms(2) show ?thesis by (simp add: nth_filterRailByCurrency [OF Some assms(1)])
qed

lemma showAllCardsInRail_outside:
  assumes "j < length (cards d)" "\<not> inRail r (cards d ! j)"
  shows "cards (showAllCardsInRail r d) ! j = cards d ! j"
proof (cases "elems d r")
  case None
  then show ?thesis by (simp add: showAllCardsInRail_def)
next
  case (Some rail)
  from assms(2) show ?thesis by (simp add: nth_showAllCardsInRail [OF Some assms(1)])
qed

lemma filterRailByCurrency_lost:
  assumes "j < length (cards d)" "selected (cards d ! j)"
    "\<not> selected (cards (filterRailByCurrency r a d) ! j)"
  shows "d_none (cards (filterRailByCurrency r a d) ! j) \<and> inRail r (cards d ! j)"
proof (cases "elems d r")
  case None
  with assms show ?thesis by (simp add: filterRailByCurrency_def)
next
  case (Some rail)
  from assms(2,3) show ?thesis
    by (simp add: nth_filterRailByCurrency [OF Some assms(1)] selected_filterCard
          split: if_splits)
qed

lemma showAllCardsInRail_selected:
  assumes "j < length (cards d)"
  shows "selected (cards (showAllCardsInRail r d) ! j) = selected (cards d ! j)"
  by (rule map_eq_nthD [OF map_showAllCardsInRail assms]) simp

lemma applyLocalCurrencyFilter_outside:
  assumes "j < length (cards d)" "\<not> inRail ''rail-local-to'' (cards d ! j)"
  shows "cards (applyLocalCurrencyFilter fc d) ! j = cards d ! j"
  using assms
  by (simp add: applyLocalCurrencyFilter_def Let_def filterRailByCurrency_outside
        showAllCardsInRail_outside)

lemma applyIntlToCurrencyFilter_outside:
  assumes "j < length (cards d)" "\<not> inRail ''rail-intl-to'' (cards d ! j)"
  shows "cards (applyIntlToCurrencyFilter fc d) ! j = cards d ! j"
  using assms
  by (simp add: applyIntlToCurrencyFilter_def Let_def filterRailByCurrency_outside
        showAllCardsInRail_outside)

lemma applyLocalCurrencyFilter_lost:
  assumes "j < length (cards d)" "selected (cards d ! j)"
    "\<not> selected (cards (applyLocalCurrencyFilter fc d) ! j)"
  shows "d_none (cards (applyLocalCurrencyFilter fc d) ! j)
         \<and> inRail ''rail-local-to'' (cards d ! j)"
  using assms filterRailByCurrency_lost [OF assms(1,2)]
  by (simp add: applyLocalCurrencyFilter_def Let_def showAllCardsInRail_selected
        split: if_splits)

lemma applyIntlToCurrencyFilter_lost:
  assumes "j < length (cards d)" "selected (cards d ! j)"
    "\<not> selected (cards (applyIntlToCurrencyFilter fc d) ! j)"
  shows "d_none (cards (applyIntlToCurrencyFilter fc d) ! j)
         \<and> inRail ''rail-intl-to'' (cards d ! j)"
  using assms filterRailByCurrency_lost [OF assms(1,2)]
  by (simp add: applyIntlToCurrencyFilter_def Let_def showAllCardsInRail_selected
        split: if_splits)

lemma applyLocalToDisables_selected:
  assumes "j < length (cards d)"
  shows "selected (cards (applyLocalToDisables d) ! j) = selected (cards d ! j)"
    and "inRail r (cards (applyLocalToDisables d) ! j) = inRail r (cards d ! j)"
  by (simp_all add: nth_applyLocalToDisables [OF assms] inRail_def)

lemma length_cards_applyLocalToDisables [simp]:
  "length (cards (applyLocalToDisables d)) = length (cards d)"
  by (simp add: applyLocalToDisables_def Let_def)

lemma selectCard_outside:
  assumes i: "i < length (cards d)" and j: "j < length (cards d)"
    and "grp = ''local-from'' \<Longrightarrow> \<not> inRail ''rail-local-to'' (cards d ! j)"
    and "grp = ''intl-from'' \<Longrightarrow> \<not> inRail ''rail-intl-to'' (cards d ! j)"
  shows "selected (cards (selectCard i (railMap grp) d) ! j) = selected (cards (markSelected i d) ! j)"
proof -
  let ?d3 = "writeHiddenCurrency i (railMap grp) (writeHiddenId i (railMap grp) (markSelected i d))"
  have c3: "cards ?d3 = cards (markSelected i d)" by simp
  have j3: "j < length (cards ?d3)" using j by simp
  have inr: "inRail r (cards ?d3 ! j) = inRail r (cards d ! j)" for r
    unfolding c3 by (rule attrs_eqD(6) [OF attrs_nth_markSelected [OF j]])
  consider "grp = ''local-from''" | "grp = ''intl-from''"
    | "grp \<noteq> ''local-from''" "grp \<noteq> ''intl-from''" by blast
  then show ?thesis
  proof cases
    case 1
    have j4: "j < length (cards (applyLocalToDisables ?d3))" using j3 by simp
    have "\<not> inRail ''rail-local-to'' (cards (applyLocalToDisables ?d3) ! j)"
      unfolding applyLocalToDisables_selected(2) [OF j3] inr by (rule assms(3) [OF 1])
    from applyLocalCurrencyFilter_outside [OF j4 this]
    have "selected (cards (applyLocalCurrencyFilter (Some i) (applyLocalToDisables ?d3)) ! j)
          = selected (cards ?d3 ! j)"
      by (simp only: applyLocalToDisables_selected(1) [OF j3])
    then show ?thesis
      unfolding 1 selectCard_local_from c3 [unfolded 1] .
  next
    case 2
    have "\<not> inRail ''rail-intl-to'' (cards ?d3 ! j)"
      unfolding inr by (rule assms(4) [OF 2])
    from applyIntlToCurrencyFilter_outside [OF j3 this]
    have "selected (cards (applyIntlToCurrencyFilter (Some i) ?d3) ! j) = selected (cards ?d3 ! j)"
      by simp
    then show ?thesis
      unfolding 2 selectCard_intl_from c3 [unfolded 2] .
  next
    case 3
    then show ?thesis by (simp add: selectCard_no_callback)
  qed
qed

lemma selectCard_lost:
  assumes i: "i < length (cards d)" and j: "j < length (cards d)"
    and "selected (cards (markSelected i d) ! j)"
    and "\<not> selected (cards (selectCard i (railMap grp) d) ! j)"
  shows "d_none (cards (selectCard i (railMap grp) d) ! j)
         \<and> (grp = ''local-from'' \<and> inRail ''rail-local-to'' (cards d ! j)
            \<or> grp = ''intl-from'' \<and> inRail ''rail-intl-to'' (cards d ! j))"
proof -
  let ?d3 = "writeHiddenCurrency i (railMap grp) (writeHiddenId i (railMap grp) (markSelected i d))"
  have c3: "cards ?d3 = cards (markSelected i d)" by simp
  have j3: "j < length (cards ?d3)" using j by simp
  have inr: "inRail r (cards ?d3 ! j) = inRail r (cards d ! j)" for r
    unfolding c3 by (rule attrs_eqD(6) [OF attrs_nth_markSelected [OF j]])
  have s3: "selected (cards ?d3 ! j)" unfolding c3 by (rule assms(3))
  consider "grp = ''local-from''" | "grp = ''intl-from''"
    | "grp \<noteq> ''local-from''" "grp \<noteq> ''intl-from''" by blast
  then show ?thesis
  proof cases
    case 1
    have j4: "j < length (cards (applyLocalToDisables ?d3))" using j3 by simp
    have s4: "selected (cards (applyLocalToDisables ?d3) ! j)"
      using s3 by (simp only: applyLocalToDisables_selected(1) [OF j3])
    have "\<not> selected (cards (applyLocalCurrencyFilter (Some i) (applyLocalToDisables ?d3)) ! j)"
      using assms(4) unfolding 1 selectCard_local_from .
    from applyLocalCurrencyFilter_lost [OF j4 s4 this]
    have "d_none (cards (applyLocalCurrencyFilter (Some i) (applyLocalToDisables ?d3)) ! j)
          \<and> inRail ''rail-local-to'' (cards d ! j)"
      unfolding applyLocalToDisables_selected(2) [OF j3] inr .
    then have "d_none (cards (selectCard i (railMap grp) d) ! j)
          \<and> inRail ''rail-local-to'' (cards d ! j)"
      unfolding 1 selectCard_local_from .
    with 1 show ?thesis by blast
  next
    case 2
    have "\<not> selected (cards (applyIntlToCurrencyFilter (Some i) ?d3) ! j)"
      using assms(4) unfolding 2 selectCard_intl_from .
    from applyIntlToCurrencyFilter_lost [OF j3 s3 this]
    have "d_none (cards (applyIntlToCurrencyFilter (Some i) ?d3) ! j)
          \<and> inRail ''rail-intl-to'' (cards d ! j)"
      unfolding inr .
    then have "d_none (cards (selectCard i (railMap grp) d) ! j)
          \<and> inRail ''rail-intl-to'' (cards d ! j)"
      unfolding 2 selectCard_intl_from .
    with 2 show ?thesis by blast
  next
    case 3
    with assms(3,4) show ?thesis by (simp add: selectCard_no_callback)
  qed
qed

lemma selectCard_never_selects_other:
  assumes i: "i < length (cards d)" and j: "j < length (cards d)"
    and "selected (cards (selectCard i (railMap grp) d) ! j)"
  shows "selected (cards (markSelected i d) ! j)"
proof -
  let ?d3 = "writeHiddenCurrency i (railMap grp) (writeHiddenId i (railMap grp) (markSelected i d))"
  have "onlyDeselects ?d3 (selectCard i (railMap grp) d)"
    using onlyDeselects_callback [where d = ?d3 and g = grp and i = i]
    by (simp add: selectCard_callback)
  with j assms(3) show ?thesis
    by (simp add: onlyDeselects_def)
qed

subsection \<open>The international self toggle\<close>











subsection \<open>The preselection\<close>

lemma elems_selectCard_intl_from:
  assumes "i < length (cards d)"
  shows "elems (selectCard i (railMap ''intl-from'') d) j =
     (if j = ''intl-from-id''
      then map_option (\<lambda>hid. hid\<lparr>val := orEmpty (accountId (cards d ! i))\<rparr>) (elems d j)
      else elems d j)"
  using attrs_eqD(2) [OF attrs_nth_markSelected [OF assms, of i]]
  unfolding elems_selectCard_railMap
  by (simp add: elems_writeHiddenCurrency elems_writeHiddenId railMap_def truthy_def orEmpty_def)

lemma preselect_Some:
  assumes "querySelector (selectable (''rail-'' @ g)) (cards d) = Some k"
  shows "preselect g d = selectCard k (railMap g) d"
  using assms by (simp add: preselect_def)

lemma railClick_selectable:
  assumes "g \<in> set mapKeys" "elems d (''rail-'' @ g) \<noteq> None" "\<not> disabled (cards d ! k)"
  shows "railClick g (Some k) d = selectCard k (railMap g) d"
  using assms by (auto simp: railClick_def)

section \<open>The domain of the model\<close>

lemma plain_keys: "\<forall>g \<in> set mapKeys. plain g"
  by code_simp

lemma plain_undefined: "plain ''undefined''"
  by code_simp

lemma plain_groupOf_key: "railGroup c = Some g \<Longrightarrow> g \<in> set mapKeys \<Longrightarrow> plain (groupOf c)"
  using plain_keys by (simp add: groupOf_def)

lemma examples_consistent:
  "consistent page" "consistent pageKRW" "consistent pageTo1" "consistent pageTo3"
  "consistent pageSelf" "consistent pageSelfOff" "consistent pageNoWrap" "consistent bare"
  by code_simp+

lemma examples_plain:
  "plainGroups page" "plainGroups pageKRW" "plainGroups pageTo1" "plainGroups pageTo3"
  "plainGroups pageSelf" "plainGroups pageSelfOff" "plainGroups pageNoWrap" "plainGroups bare"
  by code_simp+

lemma standard_plainOnly: "standard plainOnly"
  by (simp add: standard_def plainOnly_def)

lemma selectCardE_Returned:
  assumes "qsa (groupOf (cards d ! i)) = Some (inGroup (groupOf (cards d ! i)))"
  shows "selectCardE qsa i opts d = Returned (selectCard i opts d)"
  unfolding selectCardE_def selectCard_def markSelected_def Let_def assms
  by (simp only: option.case)

lemma selectCardE_Threw:
  assumes "qsa (groupOf (cards d ! i)) = None"
  shows "selectCardE qsa i opts d = Threw d"
  using assms by (simp add: selectCardE_def)

lemma lower_upper: "\<forall>c. lowerChar (upperChar c) = lowerChar c"
  by code_simp

lemma upper_lower: "\<forall>c. upperChar (lowerChar c) = upperChar c"
  by code_simp

lemma lowerChar_upperChar_eq: "lowerChar x = lowerChar y \<longleftrightarrow> upperChar x = upperChar y"
  by (metis lower_upper upper_lower)

lemma sameIgnoringCase_equalsIgnoreCase: "sameIgnoringCase a b \<longleftrightarrow> equalsIgnoreCase a b"
proof (induction a arbitrary: b)
  case Nil
  then show ?case by (simp add: sameIgnoringCase_def equalsIgnoreCase_def toUpperCase_def)
next
  case (Cons x a)
  show ?case
  proof (cases b)
    case Nil
    then show ?thesis by (simp add: sameIgnoringCase_def equalsIgnoreCase_def toUpperCase_def)
  next
    case (Cons y b')
    with Cons.IH [of b'] show ?thesis
      by (simp add: sameIgnoringCase_def equalsIgnoreCase_def toUpperCase_def
            lowerChar_upperChar_eq)
  qed
qed

section \<open>Selection, filters and absent elements\<close>

subsection \<open>Selecting a card that is disabled or hidden\<close>

text \<open>
  C1, as amended. A click that a rail's listener receives on a card carrying the disabled
  flag is a no-op: the document is left as it was, so no card's selected state changes, no
  hidden field changes, and nothing a callback does has happened.
\<close>

theorem railClick_disabled_noop:
  "disabled (cards d ! i) \<Longrightarrow> railClick g (Some i) d = d"
  by (simp add: railClick_def split: option.splits)

theorem railClick_disabled_noop_witness:
  "disabled (cards pageKRW ! 3) \<and> railClick ''local-to'' (Some 3) pageKRW = pageKRW"
proof -
  have dis: "disabled (cards pageKRW ! 3)"
    by code_simp
  from railClick_disabled_noop [OF dis, of "''local-to''"] dis
  show ?thesis by simp
qed

text \<open>
  C1 as stated fails. On the example page, after account 1 was chosen in the local
  "from" rail, the card of account 1 in the local "to" rail is disabled, and a direct call
  of \<^verbatim>\<open>selectCard\<close> on it selects it and writes its id into the hidden field; the
  card of account 3 is hidden and not disabled, and a click dispatched to it selects it.
\<close>

theorem selectCard_unguarded_counterexample:
  "disabled (cards pageKRW ! 3) \<and> \<not> selected (cards pageKRW ! 3)
   \<and> selected (cards (selectCard 3 (railMap ''local-to'') pageKRW) ! 3)
   \<and> map_option val (elems pageKRW ''local-to-id'') = Some []
   \<and> map_option val (elems (selectCard 3 (railMap ''local-to'') pageKRW) ''local-to-id'')
        = Some ''1''
   \<and> d_none (cards pageKRW ! 5) \<and> \<not> disabled (cards pageKRW ! 5)
   \<and> \<not> selected (cards pageKRW ! 5)
   \<and> selected (cards (railClick ''local-to'' (Some 5) pageKRW) ! 5)"
  by code_simp

subsection \<open>The currency filter of a rail\<close>

lemma filterRailByCurrency_shown:
  assumes "elems d railId = Some rail" and "j < length (cards d)"
    and "inRail railId (cards d ! j)"
  shows "(\<not> d_none (cards (filterRailByCurrency railId allowedCurrency d) ! j) \<longleftrightarrow>
            \<not> truthy allowedCurrency
            \<or> equalsIgnoreCase (orEmpty (currency (cards d ! j))) (orEmpty allowedCurrency))
       \<and> (d_none (cards (filterRailByCurrency railId allowedCurrency d) ! j) \<longrightarrow>
            \<not> selected (cards (filterRailByCurrency railId allowedCurrency d) ! j))"
proof (cases "truthy allowedCurrency")
  case True
  then obtain a where a: "allowedCurrency = Some a" "a \<noteq> []"
    by (auto simp: truthy_def split: option.splits)
  with assms(3) show ?thesis
    by (simp add: nth_filterRailByCurrency [OF assms(1,2)] d_none_filterCard_Some
          selected_filterCard truthy_def orEmpty_def)
next
  case False
  with assms(3) show ?thesis
    by (simp add: nth_filterRailByCurrency [OF assms(1,2)])
qed

text \<open>
  C3. Let the page have the rail, and let \<^verbatim>\<open>filterRailByCurrency\<close> be called for it with
  null or with a currency code (a non-empty text; codes are ASCII). Then a card of the
  rail is visible afterwards exactly if the allowed currency is null or the card's
  currency code equals it under case-insensitive comparison, and a card that the call
  leaves hidden is not selected.
\<close>

theorem filterRailByCurrency_visible:
  assumes "elems d railId = Some rail" and "j < length (cards d)"
    and "inRail railId (cards d ! j)"
    and "allowedCurrency \<noteq> Some []"
    and "isAscii (orEmpty allowedCurrency)" and "isAscii (orEmpty (currency (cards d ! j)))"
  shows "(\<not> d_none (cards (filterRailByCurrency railId allowedCurrency d) ! j) \<longleftrightarrow>
            (case allowedCurrency of
               None \<Rightarrow> True
             | Some a \<Rightarrow> sameIgnoringCase (orEmpty (currency (cards d ! j))) a))
       \<and> (d_none (cards (filterRailByCurrency railId allowedCurrency d) ! j) \<longrightarrow>
            \<not> selected (cards (filterRailByCurrency railId allowedCurrency d) ! j))"
proof (cases allowedCurrency)
  case None
  with filterRailByCurrency_shown [OF assms(1-3), of allowedCurrency] show ?thesis
    by (simp add: truthy_def)
next
  case (Some a)
  with assms(4) have "a \<noteq> []" by simp
  with Some filterRailByCurrency_shown [OF assms(1-3), of allowedCurrency] show ?thesis
    by (simp add: truthy_def orEmpty_def sameIgnoringCase_equalsIgnoreCase)
qed

theorem filterRailByCurrency_visible_witness:
  "elems page ''rail-local-to'' = Some blank \<and> 3 < length (cards page) \<and> 5 < length (cards page)
   \<and> inRail ''rail-local-to'' (cards page ! 3) \<and> inRail ''rail-local-to'' (cards page ! 5)
   \<and> Some ''krw'' \<noteq> Some []
   \<and> isAscii (orEmpty (Some ''krw''))
   \<and> isAscii (orEmpty (currency (cards page ! 3))) \<and> isAscii (orEmpty (currency (cards page ! 5)))
   \<and> sameIgnoringCase (orEmpty (currency (cards page ! 3))) ''krw''
   \<and> \<not> sameIgnoringCase (orEmpty (currency (cards page ! 5))) ''krw''
   \<and> \<not> d_none (cards (filterRailByCurrency ''rail-local-to'' (Some ''krw'') page) ! 3)
   \<and> d_none (cards (filterRailByCurrency ''rail-local-to'' (Some ''krw'') page) ! 5)
   \<and> \<not> selected (cards (filterRailByCurrency ''rail-local-to'' (Some ''krw'') page) ! 5)
   \<and> \<not> d_none (cards (filterRailByCurrency ''rail-local-to'' None page) ! 5)"
proof -
  have rail: "elems page ''rail-local-to'' = Some blank"
    by code_simp
  have len: "3 < length (cards page)" "5 < length (cards page)"
    by code_simp+
  have inr: "inRail ''rail-local-to'' (cards page ! 3)" "inRail ''rail-local-to'' (cards page ! 5)"
    by code_simp+
  have code: "Some ''krw'' \<noteq> Some []" "None \<noteq> Some []"
    by simp_all
  have ascii: "isAscii (orEmpty (Some ''krw''))" "isAscii (orEmpty None)"
    "isAscii (orEmpty (currency (cards page ! 3)))" "isAscii (orEmpty (currency (cards page ! 5)))"
    by code_simp+
  have cmp: "sameIgnoringCase (orEmpty (currency (cards page ! 3))) ''krw''"
    "\<not> sameIgnoringCase (orEmpty (currency (cards page ! 5))) ''krw''"
    by code_simp+
  from filterRailByCurrency_visible [OF rail len(1) inr(1) code(1) ascii(1) ascii(3)]
    filterRailByCurrency_visible [OF rail len(2) inr(2) code(1) ascii(1) ascii(4)]
    filterRailByCurrency_visible [OF rail len(2) inr(2) code(2) ascii(2) ascii(4)]
    rail len inr ascii cmp
  show ?thesis by simp
qed

subsection \<open>Absent elements and the one exception\<close>

lemma onIntlSelfChangeE_Returned:
  assumes std: "standard qsa" and pl: "plainGroups d"
  shows "onIntlSelfChangeE qsa d = Returned (onIntlSelfChange d)"
proof -
  let ?d3 = "filterRailByCurrency ''rail-intl-to'' (Some ''BDT'')
               (setRecipientDisabled [] True
                  (updElem ''self-bdt-wrap'' (\<lambda>w. w\<lparr>cls_d_none := False\<rparr>) d))"
  have attrs3: "map attrs (cards ?d3) = map attrs (cards d)"
    by (simp add: map_filterRailByCurrency)
  have sel: "selectCardE qsa k (railMap ''intl-to'') ?d3
             = Returned (selectCard k (railMap ''intl-to'') ?d3)"
    if q: "querySelector (selectable ''rail-intl-to'') (cards ?d3) = Some k" for k
  proof -
    from querySelector_Some [OF q] have k3: "k < length (cards ?d3)" by blast
    with map_eq_imp_length_eq [OF attrs3] have k: "k < length (cards d)" by simp
    have "groupOf (cards ?d3 ! k) = groupOf (cards d ! k)"
      by (rule attrs_eqD(7) [OF map_eq_nthD [OF attrs3 k]])
    moreover from pl k have "plain (groupOf (cards d ! k))"
      by (simp add: plainGroups_def)
    ultimately have "qsa (groupOf (cards ?d3 ! k)) = Some (inGroup (groupOf (cards ?d3 ! k)))"
      using std by (simp add: standard_def)
    then show ?thesis by (rule selectCardE_Returned)
  qed
  show ?thesis
  proof (cases "elems d ''chk-self''")
    case None
    then show ?thesis by (simp add: onIntlSelfChangeE_def onIntlSelfChange_def)
  next
    case (Some chk)
    show ?thesis
    proof (cases "checked chk")
      case True
      show ?thesis
      proof (cases "querySelector (selectable ''rail-intl-to'') (cards ?d3)")
        case None
        with Some True show ?thesis
          by (simp add: onIntlSelfChangeE_def onIntlSelfChange_def)
      next
        case (Some k)
        with \<open>elems d ''chk-self'' = Some chk\<close> True sel [OF Some] show ?thesis
          by (simp add: onIntlSelfChangeE_def onIntlSelfChange_def)
      qed
    next
      case False
      with Some show ?thesis
        by (simp add: onIntlSelfChangeE_def onIntlSelfChange_def Let_def)
    qed
  qed
qed

text \<open>
  C7, as amended. On a page whose rail group names are plain every operation returns
  normally: the one exception the script can raise is the \<^verbatim>\<open>SyntaxError\<close> of the
  selector of line 34, which leaves \<^verbatim>\<open>selectCard\<close> before anything is written, and
  which a plain name does not raise; the international self toggle calls
  \<^verbatim>\<open>selectCard\<close> and returns normally on such a page too. The other operations have
  no statement that can fail.

  When an element is absent, the step that needs it is skipped: the two rail filters
  change nothing without their rail; \<^verbatim>\<open>selectCard\<close> writes no hidden field that is
  absent; \<^verbatim>\<open>setRecipientDisabled\<close> leaves the cards alone and updates exactly those of
  the wrapper and the two inputs that the page has, so without all three it changes
  nothing; each self toggle changes nothing without its checkbox.
  \<^verbatim>\<open>applyLocalToDisables\<close> without the \<^verbatim>\<open>local-from-id\<close> field takes the "from" id to
  be the empty string and sets the disabled flag of every card of the local "to" group
  accordingly.
\<close>

theorem absent_element_skipped:
  "(standard qsa \<and> plain (groupOf (cards d ! i)) \<longrightarrow>
      selectCardE qsa i opts d = Returned (selectCard i opts d))
   \<and> (qsa (groupOf (cards d ! i)) = None \<longrightarrow> selectCardE qsa i opts d = Threw d)
   \<and> (standard qsa \<and> plainGroups d \<longrightarrow>
        onIntlSelfChangeE qsa d = Returned (onIntlSelfChange d))
   \<and> (elems d railId = None \<longrightarrow>
        filterRailByCurrency railId a d = d \<and> showAllCardsInRail railId d = d)
   \<and> (hiddenId opts = Some h \<and> elems d h = None \<longrightarrow> writeHiddenId i opts d = d)
   \<and> (hiddenCurrency opts = Some hc \<and> elems d hc = None \<longrightarrow> writeHiddenCurrency i opts d = d)
   \<and> ((\<forall>x. hiddenId (railMap g) = Some x \<or> hiddenCurrency (railMap g) = Some x \<longrightarrow>
            elems d x = None) \<longrightarrow>
        elems (selectCard i (railMap g) d) = elems d)
   \<and> cards (setRecipientDisabled p b d) = cards d
   \<and> elems (setRecipientDisabled p b d) x =
        (if x = p @ ''recipient_name'' \<or> x = p @ ''recipient_id''
         then map_option (\<lambda>n. n\<lparr>disabledProp := b, cls_is_disabled := b\<rparr>) (elems d x)
         else if x = p @ ''recipient-wrap''
         then map_option (\<lambda>wrap. wrap\<lparr>cls_opacity_75 := b,
                ariaDisabled := Some (if b then ''true'' else ''false'')\<rparr>) (elems d x)
         else elems d x)
   \<and> (elems d (p @ ''recipient-wrap'') = None \<and> elems d (p @ ''recipient_id'') = None
        \<and> elems d (p @ ''recipient_name'') = None \<longrightarrow> setRecipientDisabled p b d = d)
   \<and> (elems d ''chk-self'' = None \<longrightarrow> onIntlSelfChange d = d)
   \<and> (elems d ''local-chk-self'' = None \<longrightarrow> onLocalSelfChange d = d)
   \<and> (elems d ''local-from-id'' = None \<longrightarrow>
        applyLocalToDisables d =
          forEachCard (inGroup ''local-to'') (\<lambda>c. c\<lparr>disabled := (accountId c = Some [])\<rparr>) d)"
proof (intro conjI impI)
  show "selectCardE qsa i opts d = Returned (selectCard i opts d)"
    if "standard qsa \<and> plain (groupOf (cards d ! i))"
    using that by (intro selectCardE_Returned) (simp add: standard_def)
  show "selectCardE qsa i opts d = Threw d" if "qsa (groupOf (cards d ! i)) = None"
    using that by (rule selectCardE_Threw)
  show "onIntlSelfChangeE qsa d = Returned (onIntlSelfChange d)"
    if "standard qsa \<and> plainGroups d"
    using that by (intro onIntlSelfChangeE_Returned) simp_all
  show "filterRailByCurrency railId a d = d" if "elems d railId = None"
    using that by (simp add: filterRailByCurrency_def)
  show "showAllCardsInRail railId d = d" if "elems d railId = None"
    using that by (simp add: showAllCardsInRail_def)
  show "writeHiddenId i opts d = d" if "hiddenId opts = Some h \<and> elems d h = None"
    using that by (simp add: writeHiddenId_def orEmpty_def updElem_absent)
  show "writeHiddenCurrency i opts d = d" if "hiddenCurrency opts = Some hc \<and> elems d hc = None"
    using that by (simp add: writeHiddenCurrency_def orEmpty_def updElem_absent)
  show "elems (selectCard i (railMap g) d) = elems d"
    if "\<forall>x. hiddenId (railMap g) = Some x \<or> hiddenCurrency (railMap g) = Some x \<longrightarrow>
          elems d x = None"
    using that by (intro selectCard_absent) blast
  show "cards (setRecipientDisabled p b d) = cards d"
    by simp
  show "elems (setRecipientDisabled p b d) x =
        (if x = p @ ''recipient_name'' \<or> x = p @ ''recipient_id''
         then map_option (\<lambda>n. n\<lparr>disabledProp := b, cls_is_disabled := b\<rparr>) (elems d x)
         else if x = p @ ''recipient-wrap''
         then map_option (\<lambda>wrap. wrap\<lparr>cls_opacity_75 := b,
                ariaDisabled := Some (if b then ''true'' else ''false'')\<rparr>) (elems d x)
         else elems d x)"
    by (rule elems_setRecipientDisabled)
  show "setRecipientDisabled p b d = d"
    if "elems d (p @ ''recipient-wrap'') = None \<and> elems d (p @ ''recipient_id'') = None
        \<and> elems d (p @ ''recipient_name'') = None"
    using that by (intro setRecipientDisabled_absent) simp_all
  show "onIntlSelfChange d = d" if "elems d ''chk-self'' = None"
    using that by (simp add: onIntlSelfChange_def)
  show "onLocalSelfChange d = d" if "elems d ''local-chk-self'' = None"
    using that by (simp add: onLocalSelfChange_def)
  show "applyLocalToDisables d =
          forEachCard (inGroup ''local-to'') (\<lambda>c. c\<lparr>disabled := (accountId c = Some [])\<rparr>) d"
    if "elems d ''local-from-id'' = None"
    using that by (rule applyLocalToDisables_absent)
qed

theorem absent_element_skipped_witness:
  "standard plainOnly \<and> plain (groupOf (cards bare ! 0)) \<and> plainGroups pageSelf
   \<and> selectCardE plainOnly 0 (railMap ''local-from'') bare
        = Returned (selectCard 0 (railMap ''local-from'') bare)
   \<and> selectCardE (\<lambda>g. None) 0 (railMap ''local-from'') page = Threw page
   \<and> onIntlSelfChangeE plainOnly pageSelf = Returned (onIntlSelfChange pageSelf)
   \<and> elems bare ''rail-local-to'' = None
   \<and> filterRailByCurrency ''rail-local-to'' (Some ''KRW'') bare = bare
   \<and> showAllCardsInRail ''rail-local-to'' bare = bare
   \<and> hiddenId (railMap ''local-from'') = Some ''local-from-id''
   \<and> elems bare ''local-from-id'' = None
   \<and> writeHiddenId 0 (railMap ''local-from'') bare = bare
   \<and> hiddenCurrency (railMap ''local-from'') = Some ''local-currency''
   \<and> elems bare ''local-currency'' = None
   \<and> writeHiddenCurrency 0 (railMap ''local-from'') bare = bare
   \<and> elems (selectCard 0 (railMap ''local-to'') bare) = elems bare
   \<and> elems bare ''recipient-wrap'' = None \<and> elems bare ''recipient_id'' = None
   \<and> elems bare ''recipient_name'' = None
   \<and> setRecipientDisabled [] True bare = bare
   \<and> elems pageNoWrap ''recipient-wrap'' = None
   \<and> map_option disabledProp (elems pageNoWrap ''recipient_id'') = Some False
   \<and> map_option disabledProp (elems (setRecipientDisabled [] True pageNoWrap) ''recipient_id'')
        = Some True
   \<and> elems bare ''chk-self'' = None \<and> onIntlSelfChange bare = bare
   \<and> elems bare ''local-chk-self'' = None \<and> onLocalSelfChange bare = bare
   \<and> applyLocalToDisables bare =
        forEachCard (inGroup ''local-to'') (\<lambda>c. c\<lparr>disabled := (accountId c = Some [])\<rparr>) bare"
proof -
  have absent: "elems bare x = None" for x
    by (simp add: bare_def)
  have opts: "hiddenId (railMap ''local-from'') = Some ''local-from-id''"
    "hiddenCurrency (railMap ''local-from'') = Some ''local-currency''"
    by (simp_all add: railMap_def)
  have pl: "plain (groupOf (cards bare ! 0))"
    by code_simp
  have nowrap: "elems pageNoWrap ''recipient-wrap'' = None
    \<and> map_option disabledProp (elems pageNoWrap ''recipient_id'') = Some False"
    by code_simp
  note std = standard_plainOnly
  note pls = examples_plain(5)
  from absent_element_skipped [where d = bare and qsa = plainOnly and railId = "''rail-local-to''"
      and a = "Some ''KRW''" and opts = "railMap ''local-from''" and h = "''local-from-id''"
      and i = 0 and hc = "''local-currency''" and p = "[]" and b = True and g = "''local-to''"
      and x = "''recipient_id''"] absent opts pl std
  have 1: "selectCardE plainOnly 0 (railMap ''local-from'') bare
        = Returned (selectCard 0 (railMap ''local-from'') bare)
     \<and> filterRailByCurrency ''rail-local-to'' (Some ''KRW'') bare = bare
     \<and> showAllCardsInRail ''rail-local-to'' bare = bare
     \<and> writeHiddenId 0 (railMap ''local-from'') bare = bare
     \<and> writeHiddenCurrency 0 (railMap ''local-from'') bare = bare
     \<and> elems (selectCard 0 (railMap ''local-to'') bare) = elems bare
     \<and> setRecipientDisabled [] True bare = bare
     \<and> onIntlSelfChange bare = bare \<and> onLocalSelfChange bare = bare
     \<and> applyLocalToDisables bare =
        forEachCard (inGroup ''local-to'') (\<lambda>c. c\<lparr>disabled := (accountId c = Some [])\<rparr>) bare"
    by simp
  from absent_element_skipped [where d = page and qsa = "\<lambda>g. None" and i = 0
      and opts = "railMap ''local-from''"]
  have 2: "selectCardE (\<lambda>g. None) 0 (railMap ''local-from'') page = Threw page"
    by simp
  from absent_element_skipped [where d = pageSelf and qsa = plainOnly] std pls
  have 3: "onIntlSelfChangeE plainOnly pageSelf = Returned (onIntlSelfChange pageSelf)"
    by simp
  from absent_element_skipped [where d = pageNoWrap and p = "[]" and b = True
      and x = "''recipient_id''"] nowrap
  have 4: "map_option disabledProp (elems (setRecipientDisabled [] True pageNoWrap) ''recipient_id'')
        = Some True"
    by (auto simp: option.map_comp comp_def)
  from 1 2 3 4 absent opts pl std pls nowrap show ?thesis
    by simp
qed

text \<open>
  C7 as stated fails. On a page without the \<^verbatim>\<open>local-from-id\<close> field,
  \<^verbatim>\<open>applyLocalToDisables\<close> clears the disabled flag of a card of the local "to" group;
  on a page without the recipient wrapper, \<^verbatim>\<open>setRecipientDisabled\<close> still disables
  the recipient input.
\<close>

theorem absent_element_counterexample:
  "consistent pageNoFromId \<and> elems pageNoFromId ''local-from-id'' = None
   \<and> disabled (cards pageNoFromId ! 3)
   \<and> \<not> disabled (cards (applyLocalToDisables pageNoFromId) ! 3)
   \<and> consistent pageNoWrap \<and> elems pageNoWrap ''recipient-wrap'' = None
   \<and> map_option disabledProp (elems pageNoWrap ''recipient_id'') = Some False
   \<and> map_option disabledProp (elems (setRecipientDisabled [] True pageNoWrap) ''recipient_id'')
        = Some True"
  by code_simp

subsection \<open>The selection after \<^verbatim>\<open>selectCard\<close>\<close>

lemma selectCard_local_from_self:
  assumes i: "i < length (cards d)"
  shows "selected (cards (selectCard i (railMap ''local-from'') d) ! i)"
proof -
  let ?d3 = "writeHiddenCurrency i (railMap ''local-from'')
               (writeHiddenId i (railMap ''local-from'') (markSelected i d))"
  have i3: "i < length (cards ?d3)" using i by simp
  have i4: "i < length (cards (applyLocalToDisables ?d3))" using i3 by simp
  have "selected (cards ?d3 ! i)"
    by (simp add: nth_cards_markSelected [OF i i])
  then have "selected (cards (applyLocalToDisables ?d3) ! i)"
    by (simp only: applyLocalToDisables_selected(1) [OF i3])
  then show ?thesis
    unfolding selectCard_local_from
    by (simp only: applyLocalCurrencyFilter_same_currency [OF i4 refl])
qed

lemma selectCard_self:
  assumes i: "i < length (cards d)"
    and out: "grp = ''intl-from'' \<Longrightarrow> \<not> inRail ''rail-intl-to'' (cards d ! i)"
  shows "selected (cards (selectCard i (railMap grp) d) ! i)"
proof (cases "grp = ''local-from''")
  case True
  with selectCard_local_from_self [OF i] show ?thesis by simp
next
  case False
  from selectCard_outside [OF i i, of grp] False out show ?thesis
    by (simp add: nth_cards_markSelected [OF i i])
qed

text \<open>
  C2, as amended. Let \<^verbatim>\<open>selectCard\<close> be called with the bindings that the table holds
  for a key \<open>grp\<close>, on a card whose rail group \<open>g\<close> is a plain name.
  \<^item> Among the cards of group \<open>g\<close>, afterwards exactly the card itself is selected. The
    one exception: with the bindings of the international "from" rail, a card that lies
    inside the international "to" rail can be hidden, and so deselected, by its own
    callback.
  \<^item> No card of another group becomes selected. Without a callback (the "to" rails) the
    cards of the other groups are left as they were; with a callback (the "from" rails) a
    card of another group loses its selection only by being hidden by the currency filter
    of the paired "to" rail.
  \<^item> \<^verbatim>\<open>selectCard\<close>, the two rail filters and the two self toggles keep the property
    that each rail group has at most one selected card.
\<close>

theorem selectCard_selection:
  "(i < length (cards d) \<and> railGroup (cards d ! i) = Some g \<and> plain g \<and> j < length (cards d) \<longrightarrow>
      (inGroup g (cards d ! j)
        \<and> (grp = ''intl-from'' \<longrightarrow> \<not> inRail ''rail-intl-to'' (cards d ! i)) \<longrightarrow>
          (selected (cards (selectCard i (railMap grp) d) ! j) \<longleftrightarrow> j = i))
      \<and> (\<not> inGroup g (cards d ! j) \<longrightarrow>
          (selected (cards (selectCard i (railMap grp) d) ! j) \<longrightarrow> selected (cards d ! j))
          \<and> (grp \<noteq> ''local-from'' \<and> grp \<noteq> ''intl-from'' \<longrightarrow>
                cards (selectCard i (railMap grp) d) ! j = cards d ! j)
          \<and> (selected (cards d ! j) \<and> \<not> selected (cards (selectCard i (railMap grp) d) ! j) \<longrightarrow>
                d_none (cards (selectCard i (railMap grp) d) ! j)
                \<and> (grp = ''local-from'' \<and> inRail ''rail-local-to'' (cards d ! j)
                   \<or> grp = ''intl-from'' \<and> inRail ''rail-intl-to'' (cards d ! j)))))
   \<and> (oneSelectedPerRail d \<longrightarrow>
        (i < length (cards d) \<and> plain (groupOf (cards d ! i)) \<longrightarrow>
           oneSelectedPerRail (selectCard i (railMap grp) d))
        \<and> oneSelectedPerRail (filterRailByCurrency r a d)
        \<and> oneSelectedPerRail (showAllCardsInRail r d)
        \<and> (plainGroups d \<longrightarrow> oneSelectedPerRail (onIntlSelfChange d))
        \<and> oneSelectedPerRail (onLocalSelfChange d))"
proof -
  have same: "inGroup g (cards d ! j)
        \<and> (grp = ''intl-from'' \<longrightarrow> \<not> inRail ''rail-intl-to'' (cards d ! i)) \<longrightarrow>
          (selected (cards (selectCard i (railMap grp) d) ! j) \<longleftrightarrow> j = i)"
    if i: "i < length (cards d)" and g: "railGroup (cards d ! i) = Some g"
      and j: "j < length (cards d)"
  proof (intro impI; elim conjE)
    assume gj: "inGroup g (cards d ! j)"
      and out: "grp = ''intl-from'' \<longrightarrow> \<not> inRail ''rail-intl-to'' (cards d ! i)"
    show "selected (cards (selectCard i (railMap grp) d) ! j) \<longleftrightarrow> j = i"
    proof (cases "j = i")
      case True
      from selectCard_self [OF i, of grp] out True show ?thesis by simp
    next
      case False
      from False gj have "\<not> selected (cards (markSelected i d) ! j)"
        by (simp add: nth_cards_markSelected [OF i j] groupOf_Some [OF g])
      with selectCard_never_selects_other [OF i j, of grp] False show ?thesis
        by blast
    qed
  qed
  have other: "\<not> inGroup g (cards d ! j) \<longrightarrow>
          (selected (cards (selectCard i (railMap grp) d) ! j) \<longrightarrow> selected (cards d ! j))
          \<and> (grp \<noteq> ''local-from'' \<and> grp \<noteq> ''intl-from'' \<longrightarrow>
                cards (selectCard i (railMap grp) d) ! j = cards d ! j)
          \<and> (selected (cards d ! j) \<and> \<not> selected (cards (selectCard i (railMap grp) d) ! j) \<longrightarrow>
                d_none (cards (selectCard i (railMap grp) d) ! j)
                \<and> (grp = ''local-from'' \<and> inRail ''rail-local-to'' (cards d ! j)
                   \<or> grp = ''intl-from'' \<and> inRail ''rail-intl-to'' (cards d ! j)))"
    if i: "i < length (cards d)" and g: "railGroup (cards d ! i) = Some g"
      and j: "j < length (cards d)"
  proof (intro impI)
    assume gj: "\<not> inGroup g (cards d ! j)"
    from g gj have "j \<noteq> i" by (auto simp: inGroup_def)
    with gj have m: "cards (markSelected i d) ! j = cards d ! j"
      by (simp add: nth_cards_markSelected [OF i j] groupOf_Some [OF g])
    have 1: "selected (cards (selectCard i (railMap grp) d) ! j) \<longrightarrow> selected (cards d ! j)"
      using selectCard_never_selects_other [OF i j, of grp] unfolding m by blast
    have 2: "grp \<noteq> ''local-from'' \<and> grp \<noteq> ''intl-from'' \<longrightarrow>
                cards (selectCard i (railMap grp) d) ! j = cards d ! j"
      by (simp add: selectCard_no_callback m)
    have 3: "selected (cards d ! j) \<and> \<not> selected (cards (selectCard i (railMap grp) d) ! j) \<longrightarrow>
             d_none (cards (selectCard i (railMap grp) d) ! j)
             \<and> (grp = ''local-from'' \<and> inRail ''rail-local-to'' (cards d ! j)
                \<or> grp = ''intl-from'' \<and> inRail ''rail-intl-to'' (cards d ! j))"
      using selectCard_lost [OF i j, of grp] unfolding m by blast
    from 1 2 3
    show "(selected (cards (selectCard i (railMap grp) d) ! j) \<longrightarrow> selected (cards d ! j))
          \<and> (grp \<noteq> ''local-from'' \<and> grp \<noteq> ''intl-from'' \<longrightarrow>
                cards (selectCard i (railMap grp) d) ! j = cards d ! j)
          \<and> (selected (cards d ! j) \<and> \<not> selected (cards (selectCard i (railMap grp) d) ! j) \<longrightarrow>
                d_none (cards (selectCard i (railMap grp) d) ! j)
                \<and> (grp = ''local-from'' \<and> inRail ''rail-local-to'' (cards d ! j)
                   \<or> grp = ''intl-from'' \<and> inRail ''rail-intl-to'' (cards d ! j)))"
      by (intro conjI)
  qed
  have part1: "i < length (cards d) \<and> railGroup (cards d ! i) = Some g \<and> plain g
        \<and> j < length (cards d) \<longrightarrow>
      (inGroup g (cards d ! j)
        \<and> (grp = ''intl-from'' \<longrightarrow> \<not> inRail ''rail-intl-to'' (cards d ! i)) \<longrightarrow>
          (selected (cards (selectCard i (railMap grp) d) ! j) \<longleftrightarrow> j = i))
      \<and> (\<not> inGroup g (cards d ! j) \<longrightarrow>
          (selected (cards (selectCard i (railMap grp) d) ! j) \<longrightarrow> selected (cards d ! j))
          \<and> (grp \<noteq> ''local-from'' \<and> grp \<noteq> ''intl-from'' \<longrightarrow>
                cards (selectCard i (railMap grp) d) ! j = cards d ! j)
          \<and> (selected (cards d ! j) \<and> \<not> selected (cards (selectCard i (railMap grp) d) ! j) \<longrightarrow>
                d_none (cards (selectCard i (railMap grp) d) ! j)
                \<and> (grp = ''local-from'' \<and> inRail ''rail-local-to'' (cards d ! j)
                   \<or> grp = ''intl-from'' \<and> inRail ''rail-intl-to'' (cards d ! j))))"
    (is "_ \<longrightarrow> ?X \<and> ?Y")
  proof (rule impI, elim conjE)
    assume h: "i < length (cards d)" "railGroup (cards d ! i) = Some g" "j < length (cards d)"
    from same [OF h] other [OF h] show "?X \<and> ?Y" by (rule conjI)
  qed
  have part2: "oneSelectedPerRail d \<longrightarrow>
        (i < length (cards d) \<and> plain (groupOf (cards d ! i)) \<longrightarrow>
           oneSelectedPerRail (selectCard i (railMap grp) d))
        \<and> oneSelectedPerRail (filterRailByCurrency r a d)
        \<and> oneSelectedPerRail (showAllCardsInRail r d)
        \<and> (plainGroups d \<longrightarrow> oneSelectedPerRail (onIntlSelfChange d))
        \<and> oneSelectedPerRail (onLocalSelfChange d)"
  proof (intro impI conjI)
    assume inv: "oneSelectedPerRail d"
    show "oneSelectedPerRail (filterRailByCurrency r a d)"
      by (rule oneSelectedPerRail_onlyDeselects [OF inv onlyDeselects_filterRailByCurrency])
    show "oneSelectedPerRail (showAllCardsInRail r d)"
      by (rule oneSelectedPerRail_onlyDeselects [OF inv onlyDeselects_showAllCardsInRail])
    show "oneSelectedPerRail (onIntlSelfChange d)"
      by (rule oneSelectedPerRail_onIntlSelfChange [OF inv])
    show "oneSelectedPerRail (onLocalSelfChange d)"
      by (rule oneSelectedPerRail_onLocalSelfChange [OF inv])
    show "oneSelectedPerRail (selectCard i (railMap grp) d)"
      if "i < length (cards d) \<and> plain (groupOf (cards d ! i))"
      using that by (intro oneSelectedPerRail_selectCard [OF inv]) simp
  qed
  from part1 part2 show ?thesis by (rule conjI)
qed

theorem selectCard_selection_witness:
  "0 < length (cards pageTo3) \<and> railGroup (cards pageTo3 ! 0) = Some ''local-from''
   \<and> plain ''local-from'' \<and> plain (groupOf (cards pageTo3 ! 0)) \<and> plainGroups pageTo3
   \<and> 1 < length (cards pageTo3) \<and> inGroup ''local-from'' (cards pageTo3 ! 1)
   \<and> 5 < length (cards pageTo3) \<and> \<not> inGroup ''local-from'' (cards pageTo3 ! 5)
   \<and> selected (cards pageTo3 ! 5)
   \<and> oneSelectedPerRail pageTo3
   \<and> selected (cards (selectCard 0 (railMap ''local-from'') pageTo3) ! 0)
   \<and> \<not> selected (cards (selectCard 0 (railMap ''local-from'') pageTo3) ! 1)
   \<and> \<not> selected (cards (selectCard 0 (railMap ''local-from'') pageTo3) ! 5)
   \<and> d_none (cards (selectCard 0 (railMap ''local-from'') pageTo3) ! 5)
   \<and> inRail ''rail-local-to'' (cards pageTo3 ! 5)
   \<and> oneSelectedPerRail (selectCard 0 (railMap ''local-from'') pageTo3)
   \<and> oneSelectedPerRail (onIntlSelfChange pageTo3)
   \<and> 6 < length (cards page) \<and> railGroup (cards page ! 6) = Some ''intl-from''
   \<and> plain ''intl-from'' \<and> \<not> inRail ''rail-intl-to'' (cards page ! 6)
   \<and> selected (cards (selectCard 6 (railMap ''intl-from'') page) ! 6)"
proof -
  have hyps: "0 < length (cards pageTo3) \<and> railGroup (cards pageTo3 ! 0) = Some ''local-from''
     \<and> plain ''local-from'' \<and> plain (groupOf (cards pageTo3 ! 0))
     \<and> 1 < length (cards pageTo3) \<and> inGroup ''local-from'' (cards pageTo3 ! 1)
     \<and> inGroup ''local-from'' (cards pageTo3 ! 0)
     \<and> 5 < length (cards pageTo3) \<and> \<not> inGroup ''local-from'' (cards pageTo3 ! 5)
     \<and> selected (cards pageTo3 ! 5)
     \<and> oneSelectedPerRail pageTo3
     \<and> 6 < length (cards page) \<and> railGroup (cards page ! 6) = Some ''intl-from''
     \<and> inGroup ''intl-from'' (cards page ! 6)
     \<and> plain ''intl-from'' \<and> \<not> inRail ''rail-intl-to'' (cards page ! 6)"
    by code_simp
  have lost: "\<not> selected (cards (selectCard 0 (railMap ''local-from'') pageTo3) ! 5)"
    by code_simp
  note pls = examples_plain(4)
  from selectCard_selection [where i = 0 and d = pageTo3 and g = "''local-from''" and j = 0
      and grp = "''local-from''"] hyps pls
  have 1: "selected (cards (selectCard 0 (railMap ''local-from'') pageTo3) ! 0)
     \<and> oneSelectedPerRail (selectCard 0 (railMap ''local-from'') pageTo3)
     \<and> oneSelectedPerRail (onIntlSelfChange pageTo3)"
    by simp
  from selectCard_selection [where i = 0 and d = pageTo3 and g = "''local-from''" and j = 1
      and grp = "''local-from''"] hyps
  have 2: "\<not> selected (cards (selectCard 0 (railMap ''local-from'') pageTo3) ! 1)"
    by simp
  from selectCard_selection [where i = 0 and d = pageTo3 and g = "''local-from''" and j = 5
      and grp = "''local-from''"] hyps lost
  have 3: "d_none (cards (selectCard 0 (railMap ''local-from'') pageTo3) ! 5)
     \<and> inRail ''rail-local-to'' (cards pageTo3 ! 5)"
    by simp
  from selectCard_selection [where i = 6 and d = page and g = "''intl-from''" and j = 6
      and grp = "''intl-from''"] hyps
  have 4: "selected (cards (selectCard 6 (railMap ''intl-from'') page) ! 6)"
    by simp
  from hyps lost pls 1 2 3 4 show ?thesis by simp
qed

text \<open>
  C2 as stated fails, in both of its first two parts. A selection in one rail group can
  change the selection of another: on the example page with account 3 (BDT) selected in
  the local "to" rail, each group has at most one selected card, and selecting account 1
  (KRW) in the local "from" rail hides the BDT card of the local "to" rail, which thereby
  loses its selected state. And the card itself need not end up selected: on the page
  whose international "from" rail lies inside the international "to" rail, a click on the
  KRW card of the "from" rail selects it and then its own callback, filtering the "to"
  rail for BDT, hides and deselects it.
\<close>

theorem selectCard_other_group_counterexample:
  "oneSelectedPerRail pageTo3
   \<and> railGroup (cards pageTo3 ! 0) = Some ''local-from''
   \<and> railGroup (cards pageTo3 ! 5) = Some ''local-to''
   \<and> selected (cards pageTo3 ! 5)
   \<and> \<not> selected (cards (selectCard 0 (railMap ''local-from'') pageTo3) ! 5)
   \<and> consistent pageNested \<and> oneSelectedPerRail pageNested
   \<and> railGroup (cards pageNested ! 6) = Some ''intl-from''
   \<and> inRail ''rail-intl-from'' (cards pageNested ! 6)
   \<and> inRail ''rail-intl-to'' (cards pageNested ! 6)
   \<and> \<not> selected (cards (selectCard 6 (railMap ''intl-from'') pageNested) ! 6)
   \<and> \<not> selected (cards (railClick ''intl-from'' (Some 6) pageNested) ! 6)"
  by code_simp

subsection \<open>The preselection when the script is loaded\<close>

lemma applyLocalCurrencyFilter_shown:
  assumes "elems d ''rail-local-to'' = Some rail" and "j < length (cards d)"
    and "inRail ''rail-local-to'' (cards d ! j)"
  shows "(\<not> d_none (cards (applyLocalCurrencyFilter (Some i) d) ! j) \<longleftrightarrow>
            orEmpty (currency (cards d ! i)) = []
            \<or> equalsIgnoreCase (orEmpty (currency (cards d ! j))) (orEmpty (currency (cards d ! i))))
       \<and> (d_none (cards (applyLocalCurrencyFilter (Some i) d) ! j) \<longrightarrow>
            \<not> selected (cards (applyLocalCurrencyFilter (Some i) d) ! j))"
proof (cases "orEmpty (currency (cards d ! i)) = []")
  case True
  with assms(3) show ?thesis
    by (simp add: applyLocalCurrencyFilter_def cardCurrency_def Let_def
          nth_showAllCardsInRail [OF assms(1,2)])
next
  case False
  have eq: "applyLocalCurrencyFilter (Some i) d =
      filterRailByCurrency ''rail-local-to''
        (Some (toUpperCase (orEmpty (currency (cards d ! i))))) d"
    using False by (simp add: applyLocalCurrencyFilter_def cardCurrency_def Let_def)
  from filterRailByCurrency_shown [OF assms,
      of "Some (toUpperCase (orEmpty (currency (cards d ! i))))"] False
  show ?thesis
    unfolding eq by (simp add: truthy_def orEmpty_def equalsIgnoreCase_def)
qed

lemma applyIntlToCurrencyFilter_shown:
  assumes "elems d ''rail-intl-to'' = Some rail" and "j < length (cards d)"
    and "inRail ''rail-intl-to'' (cards d ! j)"
  shows "(\<not> d_none (cards (applyIntlToCurrencyFilter (Some i) d) ! j) \<longleftrightarrow>
            (hasCurrency ''KRW'' (cards d ! i) \<longrightarrow> hasCurrency ''BDT'' (cards d ! j))
            \<and> (hasCurrency ''BDT'' (cards d ! i) \<longrightarrow> hasCurrency ''KRW'' (cards d ! j)))
       \<and> (d_none (cards (applyIntlToCurrencyFilter (Some i) d) ! j) \<longrightarrow>
            \<not> selected (cards (applyIntlToCurrencyFilter (Some i) d) ! j))"
proof -
  consider (krw) "hasCurrency ''KRW'' (cards d ! i)" | (bdt) "hasCurrency ''BDT'' (cards d ! i)"
    | (other) "\<not> hasCurrency ''KRW'' (cards d ! i)" "\<not> hasCurrency ''BDT'' (cards d ! i)"
    by blast
  then show ?thesis
  proof cases
    case krw
    then have eq: "applyIntlToCurrencyFilter (Some i) d =
        filterRailByCurrency ''rail-intl-to'' (Some ''BDT'') d"
      by (simp add: applyIntlToCurrencyFilter_def cardCurrency_def Let_def hasCurrency_def
            equalsIgnoreCase_def truthy_def)
    from krw have "\<not> hasCurrency ''BDT'' (cards d ! i)"
      by (simp add: hasCurrency_def equalsIgnoreCase_def)
    with krw filterRailByCurrency_shown [OF assms, of "Some ''BDT''"] show ?thesis
      unfolding eq by (simp add: truthy_def orEmpty_def hasCurrency_def)
  next
    case bdt
    then have eq: "applyIntlToCurrencyFilter (Some i) d =
        filterRailByCurrency ''rail-intl-to'' (Some ''KRW'') d"
      by (simp add: applyIntlToCurrencyFilter_def cardCurrency_def Let_def hasCurrency_def
            equalsIgnoreCase_def truthy_def)
    from bdt have "\<not> hasCurrency ''KRW'' (cards d ! i)"
      by (simp add: hasCurrency_def equalsIgnoreCase_def)
    with bdt filterRailByCurrency_shown [OF assms, of "Some ''KRW''"] show ?thesis
      unfolding eq by (simp add: truthy_def orEmpty_def hasCurrency_def)
  next
    case other
    then have eq: "applyIntlToCurrencyFilter (Some i) d = showAllCardsInRail ''rail-intl-to'' d"
      by (simp add: applyIntlToCurrencyFilter_def cardCurrency_def Let_def hasCurrency_def
            equalsIgnoreCase_def truthy_def)
    from other assms(3) show ?thesis
      unfolding eq by (simp add: nth_showAllCardsInRail [OF assms(1,2)])
  qed
qed

lemma selectCard_local_from_shown:
  assumes k: "k < length (cards d)" and j: "j < length (cards d)"
    and rail: "elems d ''rail-local-to'' = Some rail"
    and inr: "inRail ''rail-local-to'' (cards d ! j)"
  shows "(\<not> d_none (cards (selectCard k (railMap ''local-from'') d) ! j) \<longleftrightarrow>
            orEmpty (currency (cards d ! k)) = []
            \<or> equalsIgnoreCase (orEmpty (currency (cards d ! j))) (orEmpty (currency (cards d ! k))))
       \<and> (d_none (cards (selectCard k (railMap ''local-from'') d) ! j) \<longrightarrow>
            \<not> selected (cards (selectCard k (railMap ''local-from'') d) ! j))"
proof -
  let ?d4 = "applyLocalToDisables (writeHiddenCurrency k (railMap ''local-from'')
               (writeHiddenId k (railMap ''local-from'') (markSelected k d)))"
  have at: "map attrs (cards ?d4) = map attrs (cards d)"
    by (simp add: map_applyLocalToDisables attrs_markSelected)
  have aj: "attrs (cards ?d4 ! j) = attrs (cards d ! j)"
    by (rule map_eq_nthD [OF at j])
  have ak: "attrs (cards ?d4 ! k) = attrs (cards d ! k)"
    by (rule map_eq_nthD [OF at k])
  have j4: "j < length (cards ?d4)" using j by simp
  have r4: "elems ?d4 ''rail-local-to'' = Some rail"
    using rail
    by (simp add: elems_writeHiddenCurrency elems_writeHiddenId railMap_def truthy_def
          orEmpty_def)
  have in4: "inRail ''rail-local-to'' (cards ?d4 ! j)"
    unfolding attrs_eqD(6) [OF aj] by (rule inr)
  from applyLocalCurrencyFilter_shown [OF r4 j4 in4, of k] show ?thesis
    unfolding selectCard_local_from attrs_eqD(3) [OF aj] attrs_eqD(3) [OF ak] .
qed

lemma selectCard_intl_from_shown:
  assumes k: "k < length (cards d)" and j: "j < length (cards d)"
    and rail: "elems d ''rail-intl-to'' = Some rail"
    and inr: "inRail ''rail-intl-to'' (cards d ! j)"
  shows "(\<not> d_none (cards (selectCard k (railMap ''intl-from'') d) ! j) \<longleftrightarrow>
            (hasCurrency ''KRW'' (cards d ! k) \<longrightarrow> hasCurrency ''BDT'' (cards d ! j))
            \<and> (hasCurrency ''BDT'' (cards d ! k) \<longrightarrow> hasCurrency ''KRW'' (cards d ! j)))
       \<and> (d_none (cards (selectCard k (railMap ''intl-from'') d) ! j) \<longrightarrow>
            \<not> selected (cards (selectCard k (railMap ''intl-from'') d) ! j))"
proof -
  let ?d3 = "writeHiddenCurrency k (railMap ''intl-from'')
               (writeHiddenId k (railMap ''intl-from'') (markSelected k d))"
  have at: "map attrs (cards ?d3) = map attrs (cards d)"
    by (simp add: attrs_markSelected)
  have aj: "attrs (cards ?d3 ! j) = attrs (cards d ! j)"
    by (rule map_eq_nthD [OF at j])
  have ak: "attrs (cards ?d3 ! k) = attrs (cards d ! k)"
    by (rule map_eq_nthD [OF at k])
  have j3: "j < length (cards ?d3)" using j by simp
  have r3: "elems ?d3 ''rail-intl-to'' = Some rail"
    using rail
    by (simp add: elems_writeHiddenCurrency elems_writeHiddenId railMap_def truthy_def
          orEmpty_def)
  have in3: "inRail ''rail-intl-to'' (cards ?d3 ! j)"
    unfolding attrs_eqD(6) [OF aj] by (rule inr)
  from applyIntlToCurrencyFilter_shown [OF r3 j3 in3, of k] show ?thesis
    unfolding selectCard_intl_from attrs_eqD(8) [OF aj] attrs_eqD(8) [OF ak] .
qed

lemma selectCard_group_mate:
  assumes k: "k < length (cards d)" and j: "j < length (cards d)" and ne: "j \<noteq> k"
    and gj: "inGroup (groupOf (cards d ! k)) (cards d ! j)"
  shows "\<not> selected (cards (selectCard k (railMap g) d) ! j)"
proof -
  from ne gj have "\<not> selected (cards (markSelected k d) ! j)"
    by (simp add: nth_cards_markSelected [OF k j])
  with selectCard_never_selects_other [OF k j, of g] show ?thesis
    by blast
qed

text \<open>
  C8. The preselection of a "from" rail when the script is loaded. When the rail has a
  card that is neither hidden nor disabled, the first such card is taken, and the outcome
  is the state that a click on that card gives (the group name of the card being plain):
  \<^item> the card is selected (in the international rail provided it does not lie inside the
    international "to" rail as well) and no other card of its group is;
  \<^item> the card's account id is in the hidden id field of the rail, and for the local rail
    its currency, when it has one, is in \<^verbatim>\<open>local-currency\<close>;
  \<^item> for the local rail the disabled flags of the local "to" group follow the new "from"
    id, and a card of the local "to" rail is visible exactly if the selected card has no
    currency or the two currencies (ASCII codes) are equal up to letter case;
  \<^item> for the international rail a card of the international "to" rail is visible exactly
    if it is a BDT card when the selected card is KRW, and a KRW card when the selected
    card is BDT;
  \<^item> a card that is hidden afterwards is not selected.

  When the rail has no such card the document is left as it was. Loading the script runs
  the two self toggles and then the two preselections, the local one first.
\<close>

theorem preselect_as_click:
  "(g = ''local-from'' \<or> g = ''intl-from'') \<longrightarrow>
     (querySelector (selectable (''rail-'' @ g)) (cards d) = Some k
        \<and> plain (groupOf (cards d ! k)) \<longrightarrow>
        k < length (cards d) \<and> selectable (''rail-'' @ g) (cards d ! k)
        \<and> (\<forall>m<k. \<not> selectable (''rail-'' @ g) (cards d ! m))
        \<and> (elems d (''rail-'' @ g) \<noteq> None \<longrightarrow> preselect g d = railClick g (Some k) d)
        \<and> ((g = ''intl-from'' \<longrightarrow> \<not> inRail ''rail-intl-to'' (cards d ! k)) \<longrightarrow>
              selected (cards (preselect g d) ! k))
        \<and> (j < length (cards d) \<and> j \<noteq> k \<and> inGroup (groupOf (cards d ! k)) (cards d ! j) \<longrightarrow>
              \<not> selected (cards (preselect g d) ! j))
        \<and> elems (preselect g d) (g @ ''-id'') =
             map_option (\<lambda>hid. hid\<lparr>val := orEmpty (accountId (cards d ! k))\<rparr>)
               (elems d (g @ ''-id''))
        \<and> (g = ''local-from'' \<longrightarrow>
             elems (preselect g d) ''local-currency'' =
               (if truthy (currency (cards d ! k))
                then map_option (\<lambda>hc. hc\<lparr>val := orEmpty (currency (cards d ! k))\<rparr>)
                       (elems d ''local-currency'')
                else elems d ''local-currency'')
             \<and> localToDisabledRule (preselect g d)
             \<and> (j < length (cards d) \<and> inRail ''rail-local-to'' (cards d ! j)
                  \<and> elems d ''rail-local-to'' \<noteq> None
                  \<and> isAscii (orEmpty (currency (cards d ! k)))
                  \<and> isAscii (orEmpty (currency (cards d ! j))) \<longrightarrow>
                  (\<not> d_none (cards (preselect g d) ! j) \<longleftrightarrow>
                     orEmpty (currency (cards d ! k)) = []
                     \<or> sameIgnoringCase (orEmpty (currency (cards d ! j)))
                          (orEmpty (currency (cards d ! k))))
                  \<and> (d_none (cards (preselect g d) ! j) \<longrightarrow>
                       \<not> selected (cards (preselect g d) ! j))))
        \<and> (g = ''intl-from'' \<longrightarrow>
             (j < length (cards d) \<and> inRail ''rail-intl-to'' (cards d ! j)
                  \<and> elems d ''rail-intl-to'' \<noteq> None \<longrightarrow>
                  (\<not> d_none (cards (preselect g d) ! j) \<longleftrightarrow>
                     (hasCurrency ''KRW'' (cards d ! k) \<longrightarrow> hasCurrency ''BDT'' (cards d ! j))
                     \<and> (hasCurrency ''BDT'' (cards d ! k) \<longrightarrow> hasCurrency ''KRW'' (cards d ! j)))
                  \<and> (d_none (cards (preselect g d) ! j) \<longrightarrow>
                       \<not> selected (cards (preselect g d) ! j)))))
     \<and> (querySelector (selectable (''rail-'' @ g)) (cards d) = None \<longrightarrow>
          preselect g d = d \<and> (\<forall>c \<in> set (cards d). \<not> selectable (''rail-'' @ g) c))
     \<and> init d = preselect ''intl-from'' (preselect ''local-from''
                   (onLocalSelfChange (onIntlSelfChange d)))"
proof (intro impI conjI; (elim conjE)?)
  assume g: "g = ''local-from'' \<or> g = ''intl-from''"
  show "init d = preselect ''intl-from'' (preselect ''local-from''
                   (onLocalSelfChange (onIntlSelfChange d)))"
    by (simp add: init_def)
  show "preselect g d = d" if "querySelector (selectable (''rail-'' @ g)) (cards d) = None"
    using that by (simp add: preselect_def)
  show "\<forall>c \<in> set (cards d). \<not> selectable (''rail-'' @ g) c"
    if "querySelector (selectable (''rail-'' @ g)) (cards d) = None"
    using that by (simp add: querySelector_None)
next
  assume g: "g = ''local-from'' \<or> g = ''intl-from''"
    and q: "querySelector (selectable (''rail-'' @ g)) (cards d) = Some k"
  note first = querySelector_Some [OF q]
  note eq = preselect_Some [OF q]
  from first show "k < length (cards d)" "selectable (''rail-'' @ g) (cards d ! k)"
    "\<forall>m<k. \<not> selectable (''rail-'' @ g) (cards d ! m)"
    by blast+
  from first have k: "k < length (cards d)" and nd: "\<not> disabled (cards d ! k)"
    by (simp_all add: selectable_def)
  show "preselect g d = railClick g (Some k) d" if "elems d (''rail-'' @ g) \<noteq> None"
    unfolding eq using g by (intro railClick_selectable [symmetric] that nd) (auto simp: mapKeys_def)
  show "selected (cards (preselect g d) ! k)"
    if "g = ''intl-from'' \<longrightarrow> \<not> inRail ''rail-intl-to'' (cards d ! k)"
    unfolding eq using that by (intro selectCard_self [OF k]) simp
  show "\<not> selected (cards (preselect g d) ! j)"
    if "j < length (cards d)" "j \<noteq> k" "inGroup (groupOf (cards d ! k)) (cards d ! j)"
    unfolding eq by (rule selectCard_group_mate [OF k that])
  from g show "elems (preselect g d) (g @ ''-id'') =
             map_option (\<lambda>hid. hid\<lparr>val := orEmpty (accountId (cards d ! k))\<rparr>)
               (elems d (g @ ''-id''))"
    unfolding eq
    by (auto simp: elems_selectCard_local_from [OF k] elems_selectCard_intl_from [OF k])
  show "elems (preselect g d) ''local-currency'' =
               (if truthy (currency (cards d ! k))
                then map_option (\<lambda>hc. hc\<lparr>val := orEmpty (currency (cards d ! k))\<rparr>)
                       (elems d ''local-currency'')
                else elems d ''local-currency'')" if "g = ''local-from''"
    using eq unfolding that by (simp add: elems_selectCard_local_from [OF k])
  show "localToDisabledRule (preselect g d)" if "g = ''local-from''"
    using eq unfolding that by (simp add: localToDisabledRule_selectCard_local_from)
  {
    assume lf: "g = ''local-from''" and j: "j < length (cards d)"
      and inr: "inRail ''rail-local-to'' (cards d ! j)"
      and rail: "elems d ''rail-local-to'' \<noteq> None"
    from rail obtain r where r: "elems d ''rail-local-to'' = Some r" by blast
    note sh = selectCard_local_from_shown [OF k j r inr]
    note eq = eq [unfolded lf]
    from sh show "\<not> d_none (cards (preselect g d) ! j) \<longleftrightarrow>
                     orEmpty (currency (cards d ! k)) = []
                     \<or> sameIgnoringCase (orEmpty (currency (cards d ! j)))
                          (orEmpty (currency (cards d ! k)))"
      unfolding lf eq sameIgnoringCase_equalsIgnoreCase by (rule conjunct1)
    from sh have "d_none (cards (preselect g d) ! j) \<longrightarrow> \<not> selected (cards (preselect g d) ! j)"
      unfolding lf eq by (rule conjunct2)
    then show "\<not> selected (cards (preselect g d) ! j)" if "d_none (cards (preselect g d) ! j)"
      using that by blast
  }
  {
    assume lf: "g = ''intl-from''" and j: "j < length (cards d)"
      and inr: "inRail ''rail-intl-to'' (cards d ! j)"
      and rail: "elems d ''rail-intl-to'' \<noteq> None"
    from rail obtain r where r: "elems d ''rail-intl-to'' = Some r" by blast
    note sh = selectCard_intl_from_shown [OF k j r inr]
    note eq = eq [unfolded lf]
    from sh show "\<not> d_none (cards (preselect g d) ! j) \<longleftrightarrow>
                     (hasCurrency ''KRW'' (cards d ! k) \<longrightarrow> hasCurrency ''BDT'' (cards d ! j))
                     \<and> (hasCurrency ''BDT'' (cards d ! k) \<longrightarrow> hasCurrency ''KRW'' (cards d ! j))"
      unfolding lf eq by (rule conjunct1)
    from sh have "d_none (cards (preselect g d) ! j) \<longrightarrow> \<not> selected (cards (preselect g d) ! j)"
      unfolding lf eq by (rule conjunct2)
    then show "\<not> selected (cards (preselect g d) ! j)" if "d_none (cards (preselect g d) ! j)"
      using that by blast
  }
qed

theorem preselect_as_click_witness:
  "querySelector (selectable ''rail-local-from'') (cards page) = Some 0
   \<and> plain (groupOf (cards page ! 0))
   \<and> elems page ''rail-local-from'' \<noteq> None \<and> elems page ''rail-local-to'' \<noteq> None
   \<and> truthy (currency (cards page ! 0))
   \<and> inGroup (groupOf (cards page ! 0)) (cards page ! 1)
   \<and> inRail ''rail-local-to'' (cards page ! 3) \<and> inRail ''rail-local-to'' (cards page ! 5)
   \<and> isAscii (orEmpty (currency (cards page ! 0)))
   \<and> isAscii (orEmpty (currency (cards page ! 3)))
   \<and> isAscii (orEmpty (currency (cards page ! 5)))
   \<and> preselect ''local-from'' page = railClick ''local-from'' (Some 0) page
   \<and> selected (cards (preselect ''local-from'' page) ! 0)
   \<and> \<not> selected (cards (preselect ''local-from'' page) ! 1)
   \<and> map_option val (elems (preselect ''local-from'' page) ''local-from-id'') = Some ''1''
   \<and> map_option val (elems (preselect ''local-from'' page) ''local-currency'') = Some ''KRW''
   \<and> localToDisabledRule (preselect ''local-from'' page)
   \<and> \<not> d_none (cards (preselect ''local-from'' page) ! 3)
   \<and> d_none (cards (preselect ''local-from'' page) ! 5)
   \<and> \<not> selected (cards (preselect ''local-from'' page) ! 5)
   \<and> querySelector (selectable ''rail-intl-from'') (cards page) = Some 6
   \<and> plain (groupOf (cards page ! 6))
   \<and> elems page ''rail-intl-from'' \<noteq> None \<and> elems page ''rail-intl-to'' \<noteq> None
   \<and> \<not> inRail ''rail-intl-to'' (cards page ! 6)
   \<and> inRail ''rail-intl-to'' (cards page ! 7) \<and> inRail ''rail-intl-to'' (cards page ! 8)
   \<and> preselect ''intl-from'' page = railClick ''intl-from'' (Some 6) page
   \<and> selected (cards (preselect ''intl-from'' page) ! 6)
   \<and> map_option val (elems (preselect ''intl-from'' page) ''intl-from-id'') = Some ''1''
   \<and> d_none (cards (preselect ''intl-from'' page) ! 7)
   \<and> \<not> selected (cards (preselect ''intl-from'' page) ! 7)
   \<and> \<not> d_none (cards (preselect ''intl-from'' page) ! 8)
   \<and> querySelector (selectable ''rail-local-from'') (cards bare) = None
   \<and> preselect ''local-from'' bare = bare"
proof -
  have hyps: "querySelector (selectable ''rail-local-from'') (cards page) = Some 0
     \<and> plain (groupOf (cards page ! 0))
     \<and> elems page ''rail-local-from'' \<noteq> None \<and> elems page ''rail-local-to'' \<noteq> None
     \<and> truthy (currency (cards page ! 0))
     \<and> 1 < length (cards page) \<and> 3 < length (cards page) \<and> 5 < length (cards page)
     \<and> 7 < length (cards page) \<and> 8 < length (cards page)
     \<and> inGroup (groupOf (cards page ! 0)) (cards page ! 1)
     \<and> inRail ''rail-local-to'' (cards page ! 3) \<and> inRail ''rail-local-to'' (cards page ! 5)
     \<and> isAscii (orEmpty (currency (cards page ! 0)))
     \<and> isAscii (orEmpty (currency (cards page ! 3)))
     \<and> isAscii (orEmpty (currency (cards page ! 5)))
     \<and> querySelector (selectable ''rail-intl-from'') (cards page) = Some 6
     \<and> plain (groupOf (cards page ! 6))
     \<and> elems page ''rail-intl-from'' \<noteq> None \<and> elems page ''rail-intl-to'' \<noteq> None
     \<and> \<not> inRail ''rail-intl-to'' (cards page ! 6)
     \<and> inRail ''rail-intl-to'' (cards page ! 7) \<and> inRail ''rail-intl-to'' (cards page ! 8)
     \<and> querySelector (selectable ''rail-local-from'') (cards bare) = None"
    by code_simp
  have vals: "orEmpty (accountId (cards page ! 0)) = ''1''
     \<and> orEmpty (currency (cards page ! 0)) = ''KRW''
     \<and> orEmpty (accountId (cards page ! 6)) = ''1''
     \<and> map_option val (elems page ''local-from-id'') = Some []
     \<and> map_option val (elems page ''local-currency'') = Some []
     \<and> map_option val (elems page ''intl-from-id'') = Some []
     \<and> sameIgnoringCase (orEmpty (currency (cards page ! 3))) ''KRW''
     \<and> \<not> sameIgnoringCase (orEmpty (currency (cards page ! 5))) ''KRW''
     \<and> hasCurrency ''KRW'' (cards page ! 6) \<and> \<not> hasCurrency ''BDT'' (cards page ! 6)
     \<and> \<not> hasCurrency ''BDT'' (cards page ! 7) \<and> hasCurrency ''BDT'' (cards page ! 8)"
    by code_simp
  from preselect_as_click [where g = "''local-from''" and d = page and k = 0 and j = 1]
    hyps vals
  have 1: "preselect ''local-from'' page = railClick ''local-from'' (Some 0) page
     \<and> selected (cards (preselect ''local-from'' page) ! 0)
     \<and> \<not> selected (cards (preselect ''local-from'' page) ! 1)
     \<and> map_option val (elems (preselect ''local-from'' page) ''local-from-id'') = Some ''1''
     \<and> map_option val (elems (preselect ''local-from'' page) ''local-currency'') = Some ''KRW''
     \<and> localToDisabledRule (preselect ''local-from'' page)"
    by (auto simp: option.map_comp comp_def)
  from preselect_as_click [where g = "''local-from''" and d = page and k = 0 and j = 3]
    hyps vals
  have 2: "\<not> d_none (cards (preselect ''local-from'' page) ! 3)"
    by auto
  from preselect_as_click [where g = "''local-from''" and d = page and k = 0 and j = 5]
    hyps vals
  have 3: "d_none (cards (preselect ''local-from'' page) ! 5)
     \<and> \<not> selected (cards (preselect ''local-from'' page) ! 5)"
    by auto
  from preselect_as_click [where g = "''intl-from''" and d = page and k = 6 and j = 7]
    hyps vals
  have 4: "preselect ''intl-from'' page = railClick ''intl-from'' (Some 6) page
     \<and> selected (cards (preselect ''intl-from'' page) ! 6)
     \<and> map_option val (elems (preselect ''intl-from'' page) ''intl-from-id'') = Some ''1''
     \<and> d_none (cards (preselect ''intl-from'' page) ! 7)
     \<and> \<not> selected (cards (preselect ''intl-from'' page) ! 7)"
    by (auto simp: option.map_comp comp_def)
  from preselect_as_click [where g = "''intl-from''" and d = page and k = 6 and j = 8]
    hyps vals
  have 5: "\<not> d_none (cards (preselect ''intl-from'' page) ! 8)"
    by auto
  from preselect_as_click [where g = "''local-from''" and d = bare] hyps
  have 6: "preselect ''local-from'' bare = bare"
    by simp
  from hyps 1 2 3 4 5 6 show ?thesis by blast
qed

end
